theory Spec2Isabelle
  imports Main
begin

section \<open>Data model\<close>

text \<open>
  The package \<open>kapacitor\<close> (file \<open>kapacitor/client.go\<close>) drives a remote Kapacitor
  engine on behalf of chronograf. Go errors are values of the type \<open>error\<close>: the one
  error the package itself names is \<open>chronograf.ErrAlertNotFound\<close>, every other error
  is produced by a collaborator and passed through unchanged.
\<close>

datatype error = ErrAlertNotFound | Err string

type_synonym TICKScript = string

text \<open>
  Modelled from the spec: the declarations of \<open>chronograf.QueryConfig\<close> and
  \<open>chronograf.AlertRule\<close> are not part of the reviewed files. The fields are the ones
  the package reads or writes (identifier, display name, query configuration with
  database, retention policy and raw text, script); \<open>Rule_Params\<close> stands for the
  other rule parameters, which are opaque to this package. Its Go zero value is \<open>0\<close>.
\<close>

record QueryConfig =
  Query_Database :: string
  Query_RetentionPolicy :: string
  Query_RawText :: string

record 'p AlertRule =
  Rule_ID :: string
  Rule_Name :: string
  Rule_Query :: QueryConfig
  Rule_TICKScript :: TICKScript
  Rule_Params :: 'p

definition zero_QueryConfig :: QueryConfig where
  "zero_QueryConfig =
     \<lparr>Query_Database = '''', Query_RetentionPolicy = '''', Query_RawText = ''''\<rparr>"

definition zero_AlertRule :: "('p::zero) AlertRule" where
  "zero_AlertRule =
     \<lparr>Rule_ID = '''', Rule_Name = '''', Rule_Query = zero_QueryConfig,
      Rule_TICKScript = '''', Rule_Params = 0\<rparr>"

text \<open>
  Modelled from the spec: the types of the Kapacitor client library
  (\<open>github.com/influxdata/kapacitor/client/v1\<close>) are declared outside the reviewed
  files. A creation payload is \<open>{id, kind, bindings, script, status}\<close>, an update
  payload is \<open>{optional script, optional bindings, optional kind, optional status}\<close>,
  a list payload carries an optional field projection. A field that a Go struct literal
  does not mention holds its zero value, which the library reads as "not set":
  \<open>TaskType_zero\<close>, \<open>TaskStatus_zero\<close>, the empty string and the empty list.
\<close>

datatype TaskType = TaskType_zero | StreamTask | BatchTask

datatype TaskStatus = TaskStatus_zero | Disabled | Enabled

datatype CredentialsMethod = UserAuthentication

record Credentials =
  Credentials_Method :: CredentialsMethod
  Credentials_Username :: string
  Credentials_Password :: string

record Config =
  Config_URL :: string
  Config_Credentials :: "Credentials option"

record DBRP =
  DBRP_Database :: string
  DBRP_RetentionPolicy :: string

record Link =
  Link_Href :: string

record CreateTaskOptions =
  Create_ID :: string
  Create_Type :: TaskType
  Create_DBRPs :: "DBRP list"
  Create_TICKscript :: string
  Create_Status :: TaskStatus

record UpdateTaskOptions =
  Update_Type :: TaskType
  Update_DBRPs :: "DBRP list"
  Update_TICKscript :: string
  Update_Status :: TaskStatus

record ListTasksOptions =
  List_Fields :: "string list"

text \<open>The library's \<open>client.Task\<close>: a task as the engine reports it.\<close>

record KTask =
  KTask_ID :: string
  KTask_Link :: Link
  KTask_Type :: TaskType
  KTask_DBRPs :: "DBRP list"
  KTask_TICKscript :: string
  KTask_Status :: TaskStatus

text \<open>
  The handle returned by \<open>client.New\<close>. Each method is a request to the remote engine:
  it reads and changes the engine's state \<open>'e\<close> and returns the engine's answer.
\<close>

record 'e kapa =
  kapa_CreateTask :: "CreateTaskOptions \<Rightarrow> 'e \<Rightarrow> (error + KTask) \<times> 'e"
  kapa_UpdateTask :: "Link \<Rightarrow> UpdateTaskOptions \<Rightarrow> 'e \<Rightarrow> (error + KTask) \<times> 'e"
  kapa_DeleteTask :: "Link \<Rightarrow> 'e \<Rightarrow> error option \<times> 'e"
  kapa_Task :: "Link \<Rightarrow> 'e \<Rightarrow> (error + KTask) \<times> 'e"
  kapa_ListTasks :: "ListTasksOptions \<Rightarrow> 'e \<Rightarrow> (error + KTask list) \<times> 'e"

text \<open>
  What the package uses without defining it in \<open>client.go\<close>: the library's constructor
  \<open>client.New\<close> and \<open>TaskStatus.String\<close>, and the package's own \<open>Reverse\<close> and
  \<open>HTTPEndpoint\<close>, which live in other files. They are parameters of the model.
\<close>

record ('e, 'p) env =
  New :: "Config \<Rightarrow> error + 'e kapa"
  Reverse :: "TICKScript \<Rightarrow> error + 'p AlertRule"
  HTTPEndpoint :: string
  Status_String :: "TaskStatus \<Rightarrow> string"

text \<open>
  \<open>Client\<close> is the struct of the source. \<open>Client_ID\<close> is the \<open>Generate\<close> method of the
  \<open>chronograf.ID\<close> held in the field \<open>ID\<close>: it draws on a source of identifiers \<open>'g\<close>
  outside the struct. \<open>Client_Ticker\<close> is the \<open>Generate\<close> method of the
  \<open>chronograf.Ticker\<close> held in the field \<open>Ticker\<close>.
\<close>

record ('g, 'p) Client =
  Client_URL :: string
  Client_Username :: string
  Client_Password :: string
  Client_ID :: "'g \<Rightarrow> (error + string) \<times> 'g"
  Client_Ticker :: "'p AlertRule \<Rightarrow> error + TICKScript"

definition Prefix :: string where
  "Prefix = ''chronograf-v1-''"

record 'p Task =
  Task_ID :: string
  Task_Href :: string
  Task_HrefOutput :: string
  Task_Rule :: "'p AlertRule"
  Task_TICKScript :: TICKScript

section \<open>State\<close>

text \<open>
  Every method has the receiver \<open>c *Client\<close>, so the struct is part of the state a
  method may change. The rest of the state is outside the process: the remote engine,
  the source of identifiers, and the requests sent to the engine so far (oldest first).
\<close>

datatype call =
    CallCreateTask CreateTaskOptions
  | CallUpdateTask Link UpdateTaskOptions
  | CallDeleteTask Link
  | CallTask Link
  | CallListTasks ListTasksOptions

record ('e, 'g, 'p) state =
  self :: "('g, 'p) Client"
  calls :: "call list"
  engine :: 'e
  idsrc :: 'g

definition CreateTask ::
  "'e kapa \<Rightarrow> CreateTaskOptions \<Rightarrow> ('e, 'g, 'p) state \<Rightarrow> (error + KTask) \<times> ('e, 'g, 'p) state" where
  "CreateTask k opts s =
     (case kapa_CreateTask k opts (engine s) of
        (r, e') \<Rightarrow> (r, s\<lparr>calls := calls s @ [CallCreateTask opts], engine := e'\<rparr>))"

definition UpdateTask ::
  "'e kapa \<Rightarrow> Link \<Rightarrow> UpdateTaskOptions \<Rightarrow> ('e, 'g, 'p) state
     \<Rightarrow> (error + KTask) \<times> ('e, 'g, 'p) state" where
  "UpdateTask k link opts s =
     (case kapa_UpdateTask k link opts (engine s) of
        (r, e') \<Rightarrow> (r, s\<lparr>calls := calls s @ [CallUpdateTask link opts], engine := e'\<rparr>))"

definition DeleteTask ::
  "'e kapa \<Rightarrow> Link \<Rightarrow> ('e, 'g, 'p) state \<Rightarrow> error option \<times> ('e, 'g, 'p) state" where
  "DeleteTask k link s =
     (case kapa_DeleteTask k link (engine s) of
        (r, e') \<Rightarrow> (r, s\<lparr>calls := calls s @ [CallDeleteTask link], engine := e'\<rparr>))"

definition GetTask ::
  "'e kapa \<Rightarrow> Link \<Rightarrow> ('e, 'g, 'p) state \<Rightarrow> (error + KTask) \<times> ('e, 'g, 'p) state" where
  "GetTask k link s =
     (case kapa_Task k link (engine s) of
        (r, e') \<Rightarrow> (r, s\<lparr>calls := calls s @ [CallTask link], engine := e'\<rparr>))"

definition ListTasks ::
  "'e kapa \<Rightarrow> ListTasksOptions \<Rightarrow> ('e, 'g, 'p) state
     \<Rightarrow> (error + KTask list) \<times> ('e, 'g, 'p) state" where
  "ListTasks k opts s =
     (case kapa_ListTasks k opts (engine s) of
        (r, e') \<Rightarrow> (r, s\<lparr>calls := calls s @ [CallListTasks opts], engine := e'\<rparr>))"

section \<open>The operations of \<open>client.go\<close>\<close>

definition Href :: "string \<Rightarrow> string" where
  "Href ID = ''/kapacitor/v1/tasks/'' @ ID"

definition HrefOutput :: "('e, 'p) env \<Rightarrow> string \<Rightarrow> string" where
  "HrefOutput env ID = ''/kapacitor/v1/tasks/'' @ ID @ ''/'' @ HTTPEndpoint env"

definition kapaClient :: "('e, 'p) env \<Rightarrow> ('g, 'p) Client \<Rightarrow> error + 'e kapa" where
  "kapaClient env c =
     (let creds =
        (if Client_Username c \<noteq> ''''
         then Some \<lparr>Credentials_Method = UserAuthentication,
                    Credentials_Username = Client_Username c,
                    Credentials_Password = Client_Password c\<rparr>
         else None)
      in New env \<lparr>Config_URL = Client_URL c, Config_Credentials = creds\<rparr>)"

definition toTask :: "QueryConfig \<Rightarrow> TaskType" where
  "toTask q = (if Query_RawText q = '''' then StreamTask else BatchTask)"

definition Create ::
  "('e, 'p) env \<Rightarrow> 'p AlertRule \<Rightarrow> ('e, 'g, 'p) state
     \<Rightarrow> (error + 'p Task) \<times> ('e, 'g, 'p) state" where
  "Create env rule s =
     (case kapaClient env (self s) of
        Inl err \<Rightarrow> (Inl err, s)
      | Inr kapa \<Rightarrow>
          (case Client_ID (self s) (idsrc s) of
             (Inl err, g') \<Rightarrow> (Inl err, s\<lparr>idsrc := g'\<rparr>)
           | (Inr id', g') \<Rightarrow>
               (let s1 = s\<lparr>idsrc := g'\<rparr> in
                case Client_Ticker (self s1) rule of
                  Inl err \<Rightarrow> (Inl err, s1)
                | Inr script \<Rightarrow>
                    (let kapaID = Prefix @ id';
                         rule' = rule\<lparr>Rule_ID := kapaID\<rparr>
                     in case CreateTask kapa
                               \<lparr>Create_ID = kapaID,
                                Create_Type = toTask (Rule_Query rule'),
                                Create_DBRPs =
                                  [\<lparr>DBRP_Database = Query_Database (Rule_Query rule'),
                                    DBRP_RetentionPolicy =
                                      Query_RetentionPolicy (Rule_Query rule')\<rparr>],
                                Create_TICKscript = script,
                                Create_Status = Enabled\<rparr> s1 of
                          (Inl err, s2) \<Rightarrow> (Inl err, s2)
                        | (Inr task, s2) \<Rightarrow>
                            (Inr \<lparr>Task_ID = kapaID,
                                  Task_Href = Link_Href (KTask_Link task),
                                  Task_HrefOutput = HrefOutput env kapaID,
                                  Task_Rule = rule',
                                  Task_TICKScript = script\<rparr>, s2)))))"

definition Delete ::
  "('e, 'p) env \<Rightarrow> string \<Rightarrow> ('e, 'g, 'p) state \<Rightarrow> error option \<times> ('e, 'g, 'p) state" where
  "Delete env href s =
     (case kapaClient env (self s) of
        Inl err \<Rightarrow> (Some err, s)
      | Inr kapa \<Rightarrow> DeleteTask kapa \<lparr>Link_Href = href\<rparr> s)"

definition updateStatus ::
  "('e, 'p::zero) env \<Rightarrow> string \<Rightarrow> TaskStatus \<Rightarrow> ('e, 'g, 'p) state
     \<Rightarrow> (error + 'p Task) \<times> ('e, 'g, 'p) state" where
  "updateStatus env href status s =
     (case kapaClient env (self s) of
        Inl err \<Rightarrow> (Inl err, s)
      | Inr kapa \<Rightarrow>
          (let opts = \<lparr>Update_Type = TaskType_zero, Update_DBRPs = [],
                       Update_TICKscript = '''', Update_Status = status\<rparr>
           in case UpdateTask kapa \<lparr>Link_Href = href\<rparr> opts s of
                (Inl err, s1) \<Rightarrow> (Inl err, s1)
              | (Inr task, s1) \<Rightarrow>
                  (Inr \<lparr>Task_ID = KTask_ID task,
                        Task_Href = Link_Href (KTask_Link task),
                        Task_HrefOutput = HrefOutput env (KTask_ID task),
                        Task_Rule = zero_AlertRule,
                        Task_TICKScript = KTask_TICKscript task\<rparr>, s1)))"

definition Disable ::
  "('e, 'p::zero) env \<Rightarrow> string \<Rightarrow> ('e, 'g, 'p) state
     \<Rightarrow> (error + 'p Task) \<times> ('e, 'g, 'p) state" where
  "Disable env href s = updateStatus env href Disabled s"

definition Enable ::
  "('e, 'p::zero) env \<Rightarrow> string \<Rightarrow> ('e, 'g, 'p) state
     \<Rightarrow> (error + 'p Task) \<times> ('e, 'g, 'p) state" where
  "Enable env href s = updateStatus env href Enabled s"

text \<open>The loop of \<open>AllStatus\<close> over the listed tasks, filling the map \<open>taskStatuses\<close>.\<close>

fun AllStatus_loop ::
  "('e, 'p) env \<Rightarrow> KTask list \<Rightarrow> (string \<rightharpoonup> string) \<Rightarrow> (string \<rightharpoonup> string)" where
  "AllStatus_loop env [] taskStatuses = taskStatuses"
| "AllStatus_loop env (task # tasks) taskStatuses =
     AllStatus_loop env tasks
       (taskStatuses(KTask_ID task \<mapsto> Status_String env (KTask_Status task)))"

definition AllStatus ::
  "('e, 'p) env \<Rightarrow> ('e, 'g, 'p) state
     \<Rightarrow> (error + (string \<rightharpoonup> string)) \<times> ('e, 'g, 'p) state" where
  "AllStatus env s =
     (case kapaClient env (self s) of
        Inl err \<Rightarrow> (Inl err, s)
      | Inr kapa \<Rightarrow>
          (case ListTasks kapa \<lparr>List_Fields = [''status'']\<rparr> s of
             (Inl err, s1) \<Rightarrow> (Inl err, s1)
           | (Inr tasks, s1) \<Rightarrow> (Inr (AllStatus_loop env tasks Map.empty), s1)))"

text \<open>\<open>Status\<close> returns a string and an error: the string is empty when there is an error.\<close>

definition Status ::
  "('e, 'p) env \<Rightarrow> string \<Rightarrow> ('e, 'g, 'p) state
     \<Rightarrow> (string \<times> error option) \<times> ('e, 'g, 'p) state" where
  "Status env href s =
     (case kapaClient env (self s) of
        Inl err \<Rightarrow> (('''', Some err), s)
      | Inr kapa \<Rightarrow>
          (case GetTask kapa \<lparr>Link_Href = href\<rparr> s of
             (Inl err, s1) \<Rightarrow> (('''', Some err), s1)
           | (Inr task, s1) \<Rightarrow> ((Status_String env (KTask_Status task), None), s1)))"

text \<open>The loop of \<open>All\<close> over the listed tasks, filling the map \<open>alerts\<close>.\<close>

fun All_loop ::
  "('e, 'p::zero) env \<Rightarrow> KTask list \<Rightarrow> (string \<rightharpoonup> 'p AlertRule)
     \<Rightarrow> (string \<rightharpoonup> 'p AlertRule)" where
  "All_loop env [] alerts = alerts"
| "All_loop env (task # tasks) alerts =
     (let script = KTask_TICKscript task in
      case Reverse env script of
        Inl err \<Rightarrow>
          All_loop env tasks
            (alerts(KTask_ID task \<mapsto>
               zero_AlertRule\<lparr>Rule_ID := KTask_ID task, Rule_Name := KTask_ID task,
                              Rule_TICKScript := script\<rparr>))
      | Inr rule \<Rightarrow>
          All_loop env tasks
            (alerts(KTask_ID task \<mapsto>
               rule\<lparr>Rule_ID := KTask_ID task, Rule_TICKScript := script\<rparr>)))"

definition All_Client ::
  "('e, 'p::zero) env \<Rightarrow> ('e, 'g, 'p) state
     \<Rightarrow> (error + (string \<rightharpoonup> 'p AlertRule)) \<times> ('e, 'g, 'p) state" where
  "All_Client env s =
     (case kapaClient env (self s) of
        Inl err \<Rightarrow> (Inl err, s)
      | Inr kapa \<Rightarrow>
          (case ListTasks kapa \<lparr>List_Fields = []\<rparr> s of
             (Inl err, s1) \<Rightarrow> (Inl err, s1)
           | (Inr tasks, s1) \<Rightarrow> (Inr (All_loop env tasks Map.empty), s1)))"

text \<open>\<open>Get\<close> returns a rule by value together with an error.\<close>

definition Get ::
  "('e, 'p::zero) env \<Rightarrow> string \<Rightarrow> ('e, 'g, 'p) state
     \<Rightarrow> ('p AlertRule \<times> error option) \<times> ('e, 'g, 'p) state" where
  "Get env id' s =
     (case kapaClient env (self s) of
        Inl err \<Rightarrow> ((zero_AlertRule, Some err), s)
      | Inr kapa \<Rightarrow>
          (let href = Href id' in
           case GetTask kapa \<lparr>Link_Href = href\<rparr> s of
             (Inl err, s1) \<Rightarrow> ((zero_AlertRule, Some ErrAlertNotFound), s1)
           | (Inr task, s1) \<Rightarrow>
               (let script = KTask_TICKscript task in
                case Reverse env script of
                  Inl err \<Rightarrow>
                    ((zero_AlertRule\<lparr>Rule_ID := KTask_ID task, Rule_Name := KTask_ID task,
                                     Rule_TICKScript := script\<rparr>, None), s1)
                | Inr rule \<Rightarrow>
                    ((rule\<lparr>Rule_ID := KTask_ID task, Rule_TICKScript := script\<rparr>, None),
                     s1))))"

definition Update ::
  "('e, 'p::zero) env \<Rightarrow> string \<Rightarrow> 'p AlertRule \<Rightarrow> ('e, 'g, 'p) state
     \<Rightarrow> (error + 'p Task) \<times> ('e, 'g, 'p) state" where
  "Update env href rule s =
     (case kapaClient env (self s) of
        Inl err \<Rightarrow> (Inl err, s)
      | Inr kapa \<Rightarrow>
          (case Client_Ticker (self s) rule of
             Inl err \<Rightarrow> (Inl err, s)
           | Inr script \<Rightarrow>
               (let opts = \<lparr>Update_Type = toTask (Rule_Query rule),
                            Update_DBRPs =
                              [\<lparr>DBRP_Database = Query_Database (Rule_Query rule),
                                DBRP_RetentionPolicy =
                                  Query_RetentionPolicy (Rule_Query rule)\<rparr>],
                            Update_TICKscript = script,
                            Update_Status = Disabled\<rparr>
                in case UpdateTask kapa \<lparr>Link_Href = href\<rparr> opts s of
                     (Inl err, s1) \<Rightarrow> (Inl err, s1)
                   | (Inr task, s1) \<Rightarrow>
                       (case Enable env href s1 of
                          (Inl err, s2) \<Rightarrow> (Inl err, s2)
                        | (Inr _, s2) \<Rightarrow>
                            (Inr \<lparr>Task_ID = KTask_ID task,
                                  Task_Href = Link_Href (KTask_Link task),
                                  Task_HrefOutput = HrefOutput env (KTask_ID task),
                                  Task_Rule = rule,
                                  Task_TICKScript = script\<rparr>, s2)))))"

section \<open>Concrete collaborators\<close>

text \<open>
  A small in-memory engine on which the operations can be run. Its state is the list of
  its tasks and the number of requests it will still answer: once that number is \<open>0\<close>
  every request fails and leaves the tasks as they are. An update replaces exactly the
  fields that are set in the payload.
\<close>

definition stub_down :: error where
  "stub_down = Err ''engine unavailable''"

definition stub_apply :: "UpdateTaskOptions \<Rightarrow> KTask \<Rightarrow> KTask" where
  "stub_apply opts t =
     t\<lparr>KTask_Type := (if Update_Type opts = TaskType_zero then KTask_Type t else Update_Type opts),
       KTask_DBRPs := (if Update_DBRPs opts = [] then KTask_DBRPs t else Update_DBRPs opts),
       KTask_TICKscript :=
         (if Update_TICKscript opts = '''' then KTask_TICKscript t else Update_TICKscript opts),
       KTask_Status :=
         (if Update_Status opts = TaskStatus_zero then KTask_Status t else Update_Status opts)\<rparr>"

definition stub_kapa :: "(KTask list \<times> nat) kapa" where
  "stub_kapa =
     \<lparr>kapa_CreateTask = (\<lambda>opts (ts, n).
        if n = 0 then (Inl stub_down, (ts, n))
        else (let t = \<lparr>KTask_ID = Create_ID opts,
                        KTask_Link = \<lparr>Link_Href = Href (Create_ID opts)\<rparr>,
                        KTask_Type = Create_Type opts,
                        KTask_DBRPs = Create_DBRPs opts,
                        KTask_TICKscript = Create_TICKscript opts,
                        KTask_Status = Create_Status opts\<rparr>
              in (Inr t, (ts @ [t], n - 1)))),
      kapa_UpdateTask = (\<lambda>link opts (ts, n).
        if n = 0 then (Inl stub_down, (ts, n))
        else (case find (\<lambda>t. KTask_Link t = link) ts of
                None \<Rightarrow> (Inl (Err ''no such task''), (ts, n - 1))
              | Some t \<Rightarrow>
                  (Inr (stub_apply opts t),
                   (map (\<lambda>u. if KTask_Link u = link then stub_apply opts u else u) ts, n - 1)))),
      kapa_DeleteTask = (\<lambda>link (ts, n).
        if n = 0 then (Some stub_down, (ts, n))
        else (None, (filter (\<lambda>t. KTask_Link t \<noteq> link) ts, n - 1))),
      kapa_Task = (\<lambda>link (ts, n).
        if n = 0 then (Inl stub_down, (ts, n))
        else (case find (\<lambda>t. KTask_Link t = link) ts of
                None \<Rightarrow> (Inl (Err ''no such task''), (ts, n - 1))
              | Some t \<Rightarrow> (Inr t, (ts, n - 1)))),
      kapa_ListTasks = (\<lambda>opts (ts, n).
        if n = 0 then (Inl stub_down, (ts, n)) else (Inr ts, (ts, n - 1)))\<rparr>"

text \<open>
  The other collaborators: a reverser that recognises one script, an identifier source
  that hands out the tokens of a list and fails when the list is empty, and a translator
  that refuses a rule without a name.
\<close>

definition cpu_query :: QueryConfig where
  "cpu_query =
     \<lparr>Query_Database = ''telegraf'', Query_RetentionPolicy = ''autogen'', Query_RawText = ''''\<rparr>"

definition cpu_rule :: "nat AlertRule" where
  "cpu_rule =
     \<lparr>Rule_ID = '''', Rule_Name = ''cpu'', Rule_Query = cpu_query,
      Rule_TICKScript = '''', Rule_Params = 7\<rparr>"

definition raw_rule :: "nat AlertRule" where
  "raw_rule = cpu_rule\<lparr>Rule_Query := cpu_query\<lparr>Query_RawText := ''SELECT 1''\<rparr>\<rparr>"

definition stub_env :: "(KTask list \<times> nat, nat) env" where
  "stub_env =
     \<lparr>New = (\<lambda>cfg. if Config_URL cfg = '''' then Inl (Err ''no url'') else Inr stub_kapa),
      Reverse = (\<lambda>script.
        if script = ''alert cpu'' then Inr cpu_rule else Inl (Err ''not a rule'')),
      HTTPEndpoint = ''output'',
      Status_String = (\<lambda>st.
        case st of TaskStatus_zero \<Rightarrow> '''' | Disabled \<Rightarrow> ''disabled'' | Enabled \<Rightarrow> ''enabled'')\<rparr>"

definition stub_client :: "(string list, nat) Client" where
  "stub_client =
     \<lparr>Client_URL = ''http://kapacitor:9092'', Client_Username = '''', Client_Password = '''',
      Client_ID = (\<lambda>g. case g of [] \<Rightarrow> (Inl (Err ''no identifier''), []) | t # ts \<Rightarrow> (Inr t, ts)),
      Client_Ticker = (\<lambda>rule.
        if Rule_Name rule = '''' then Inl (Err ''rule has no name'')
        else Inr (''alert '' @ Rule_Name rule))\<rparr>"

definition stub_state ::
  "KTask list \<Rightarrow> nat \<Rightarrow> string list \<Rightarrow> (KTask list \<times> nat, string list, nat) state" where
  "stub_state ts n g = \<lparr>self = stub_client, calls = [], engine = (ts, n), idsrc = g\<rparr>"

definition stub_task :: "string \<Rightarrow> string \<Rightarrow> TaskStatus \<Rightarrow> KTask" where
  "stub_task tid script st =
     \<lparr>KTask_ID = tid, KTask_Link = \<lparr>Link_Href = Href tid\<rparr>, KTask_Type = StreamTask,
      KTask_DBRPs = [\<lparr>DBRP_Database = ''telegraf'', DBRP_RetentionPolicy = ''autogen''\<rparr>],
      KTask_TICKscript = script, KTask_Status = st\<rparr>"

section \<open>Notions of the specification\<close>

text \<open>
  The degraded rule, in the words of the specification: a rule whose identifier and
  name are both the task's identifier and whose script is the raw script, everything
  else unset.
\<close>

definition degraded_rule :: "string \<Rightarrow> TICKScript \<Rightarrow> ('p::zero) AlertRule" where
  "degraded_rule tid script =
     \<lparr>Rule_ID = tid, Rule_Name = tid, Rule_Query = zero_QueryConfig,
      Rule_TICKScript = script, Rule_Params = 0\<rparr>"

text \<open>
  The conversion of one task, in the words of the specification: the reversed rule
  bound to the task's identifier and script, or the degraded rule when the reverser
  fails. It looks at this one task only.
\<close>

definition converted :: "('e, 'p::zero) env \<Rightarrow> KTask \<Rightarrow> 'p AlertRule" where
  "converted env task =
     (case Reverse env (KTask_TICKscript task) of
        Inl err \<Rightarrow> degraded_rule (KTask_ID task) (KTask_TICKscript task)
      | Inr rule \<Rightarrow>
          rule\<lparr>Rule_ID := KTask_ID task, Rule_TICKScript := KTask_TICKscript task\<rparr>)"

text \<open>A request log in which every creation request names a task with the reserved prefix.\<close>

fun prefixed_create :: "call \<Rightarrow> bool" where
  "prefixed_create (CallCreateTask opts) = (take (length Prefix) (Create_ID opts) = Prefix)"
| "prefixed_create _ = True"

definition only_prefixed_creates :: "call list \<Rightarrow> bool" where
  "only_prefixed_creates cs = list_all prefixed_create cs"

text \<open>A state of the in-memory engine that lists two tasks under one identifier.\<close>

definition twin_state :: "(KTask list \<times> nat, string list, nat) state" where
  "twin_state =
     stub_state [stub_task ''t1'' ''alert cpu'' Enabled, stub_task ''t1'' ''batch'' Disabled] 1 []"

section \<open>Properties\<close>

lemma Create_unfold:
  assumes "kapaClient env (self s) = Inr k"
    and "Client_ID (self s) (idsrc s) = (Inr tok, g')"
    and "Client_Ticker (self s) rule = Inr script"
    and "kapa_CreateTask k
           \<lparr>Create_ID = Prefix @ tok, Create_Type = toTask (Rule_Query rule),
            Create_DBRPs = [\<lparr>DBRP_Database = Query_Database (Rule_Query rule),
                             DBRP_RetentionPolicy = Query_RetentionPolicy (Rule_Query rule)\<rparr>],
            Create_TICKscript = script, Create_Status = Enabled\<rparr> (engine s) = (r, e')"
  shows "Create env rule s =
    (case r of Inl err \<Rightarrow> Inl err
     | Inr task \<Rightarrow> Inr \<lparr>Task_ID = Prefix @ tok, Task_Href = Link_Href (KTask_Link task),
                          Task_HrefOutput = HrefOutput env (Prefix @ tok),
                          Task_Rule = rule\<lparr>Rule_ID := Prefix @ tok\<rparr>,
                          Task_TICKScript = script\<rparr>,
     s\<lparr>idsrc := g', calls := calls s @ [CallCreateTask
           \<lparr>Create_ID = Prefix @ tok, Create_Type = toTask (Rule_Query rule),
            Create_DBRPs = [\<lparr>DBRP_Database = Query_Database (Rule_Query rule),
                             DBRP_RetentionPolicy = Query_RetentionPolicy (Rule_Query rule)\<rparr>],
            Create_TICKscript = script, Create_Status = Enabled\<rparr>], engine := e'\<rparr>)"
  using assms by (simp add: Create_def CreateTask_def Let_def split: sum.splits)

lemma updateStatus_unfold:
  assumes "kapaClient env (self s) = Inr k"
    and "kapa_UpdateTask k \<lparr>Link_Href = href\<rparr>
           \<lparr>Update_Type = TaskType_zero, Update_DBRPs = [], Update_TICKscript = '''',
            Update_Status = status\<rparr> (engine s) = (r, e')"
  shows "updateStatus env href status s =
    (case r of Inl err \<Rightarrow> Inl err
     | Inr task \<Rightarrow> Inr \<lparr>Task_ID = KTask_ID task, Task_Href = Link_Href (KTask_Link task),
                          Task_HrefOutput = HrefOutput env (KTask_ID task),
                          Task_Rule = zero_AlertRule,
                          Task_TICKScript = KTask_TICKscript task\<rparr>,
     s\<lparr>calls := calls s @ [CallUpdateTask \<lparr>Link_Href = href\<rparr>
           \<lparr>Update_Type = TaskType_zero, Update_DBRPs = [], Update_TICKscript = '''',
            Update_Status = status\<rparr>], engine := e'\<rparr>)"
  using assms by (simp add: updateStatus_def UpdateTask_def Let_def split: sum.splits)

lemma Update_unfold:
  assumes "kapaClient env (self s) = Inr k"
    and "Client_Ticker (self s) rule = Inr script"
    and "kapa_UpdateTask k \<lparr>Link_Href = href\<rparr>
           \<lparr>Update_Type = toTask (Rule_Query rule),
            Update_DBRPs = [\<lparr>DBRP_Database = Query_Database (Rule_Query rule),
                             DBRP_RetentionPolicy = Query_RetentionPolicy (Rule_Query rule)\<rparr>],
            Update_TICKscript = script, Update_Status = Disabled\<rparr> (engine s) = (r, e1)"
  shows "Update env href rule s =
    (case r of
       Inl err \<Rightarrow>
         (Inl err, s\<lparr>calls := calls s @ [CallUpdateTask \<lparr>Link_Href = href\<rparr>
           \<lparr>Update_Type = toTask (Rule_Query rule),
            Update_DBRPs = [\<lparr>DBRP_Database = Query_Database (Rule_Query rule),
                             DBRP_RetentionPolicy = Query_RetentionPolicy (Rule_Query rule)\<rparr>],
            Update_TICKscript = script, Update_Status = Disabled\<rparr>], engine := e1\<rparr>)
     | Inr task \<Rightarrow>
         (case Enable env href (s\<lparr>calls := calls s @ [CallUpdateTask \<lparr>Link_Href = href\<rparr>
           \<lparr>Update_Type = toTask (Rule_Query rule),
            Update_DBRPs = [\<lparr>DBRP_Database = Query_Database (Rule_Query rule),
                             DBRP_RetentionPolicy = Query_RetentionPolicy (Rule_Query rule)\<rparr>],
            Update_TICKscript = script, Update_Status = Disabled\<rparr>], engine := e1\<rparr>) of
            (Inl err, s2) \<Rightarrow> (Inl err, s2)
          | (Inr t2, s2) \<Rightarrow>
              (Inr \<lparr>Task_ID = KTask_ID task, Task_Href = Link_Href (KTask_Link task),
                    Task_HrefOutput = HrefOutput env (KTask_ID task),
                    Task_Rule = rule, Task_TICKScript = script\<rparr>, s2)))"
  using assms by (simp add: Update_def UpdateTask_def Let_def split: sum.splits prod.splits)

lemma Enable_calls:
  "calls (snd (Enable env href s)) = calls s \<or>
   calls (snd (Enable env href s)) = calls s @ [CallUpdateTask \<lparr>Link_Href = href\<rparr>
           \<lparr>Update_Type = TaskType_zero, Update_DBRPs = [], Update_TICKscript = '''',
            Update_Status = Enabled\<rparr>]"
  by (auto simp: Enable_def updateStatus_def UpdateTask_def Let_def split: sum.splits prod.splits)

lemma kapaClient_stub: "kapaClient stub_env stub_client = Inr stub_kapa"
  by (simp add: kapaClient_def stub_env_def stub_client_def)

text \<open>
  C5. \<open>Create\<close> classifies the task from the raw text of the rule's query alone: the
  request it sends has kind stream when \<open>Query.RawText\<close> is empty and kind batch
  otherwise. The first request of \<open>Update\<close> carries the kind computed by the same
  function \<open>toTask\<close>.
\<close>

theorem task_kind_from_raw_text:
  "(kapaClient env (self s) = Inr k \<longrightarrow> Client_ID (self s) (idsrc s) = (Inr tok, g') \<longrightarrow>
      Client_Ticker (self s) rule = Inr script \<longrightarrow>
      (\<exists>opts. calls (snd (Create env rule s)) = calls s @ [CallCreateTask opts] \<and>
         Create_Type opts =
           (if Query_RawText (Rule_Query rule) = '''' then StreamTask else BatchTask))) \<and>
   (kapaClient env (self s) = Inr k \<longrightarrow> Client_Ticker (self s) rule = Inr script \<longrightarrow>
      (\<exists>opts rest. calls (snd (Update env href rule s)) =
           calls s @ CallUpdateTask \<lparr>Link_Href = href\<rparr> opts # rest \<and>
         Update_Type opts =
           (if Query_RawText (Rule_Query rule) = '''' then StreamTask else BatchTask))) \<and>
   toTask (Rule_Query rule) =
     (if Query_RawText (Rule_Query rule) = '''' then StreamTask else BatchTask)"
proof (intro conjI impI)
  assume k: "kapaClient env (self s) = Inr k"
    and i: "Client_ID (self s) (idsrc s) = (Inr tok, g')"
    and t: "Client_Ticker (self s) rule = Inr script"
  obtain r e' where c: "kapa_CreateTask k
           \<lparr>Create_ID = Prefix @ tok, Create_Type = toTask (Rule_Query rule),
            Create_DBRPs = [\<lparr>DBRP_Database = Query_Database (Rule_Query rule),
                             DBRP_RetentionPolicy = Query_RetentionPolicy (Rule_Query rule)\<rparr>],
            Create_TICKscript = script, Create_Status = Enabled\<rparr> (engine s) = (r, e')"
    by (cases "kapa_CreateTask k
           \<lparr>Create_ID = Prefix @ tok, Create_Type = toTask (Rule_Query rule),
            Create_DBRPs = [\<lparr>DBRP_Database = Query_Database (Rule_Query rule),
                             DBRP_RetentionPolicy = Query_RetentionPolicy (Rule_Query rule)\<rparr>],
            Create_TICKscript = script, Create_Status = Enabled\<rparr> (engine s)") auto
  show "\<exists>opts. calls (snd (Create env rule s)) = calls s @ [CallCreateTask opts] \<and>
         Create_Type opts =
           (if Query_RawText (Rule_Query rule) = '''' then StreamTask else BatchTask)"
    by (simp add: Create_unfold [OF k i t c] toTask_def)
next
  assume k: "kapaClient env (self s) = Inr k"
    and t: "Client_Ticker (self s) rule = Inr script"
  obtain r e1 where u: "kapa_UpdateTask k \<lparr>Link_Href = href\<rparr>
           \<lparr>Update_Type = toTask (Rule_Query rule),
            Update_DBRPs = [\<lparr>DBRP_Database = Query_Database (Rule_Query rule),
                             DBRP_RetentionPolicy = Query_RetentionPolicy (Rule_Query rule)\<rparr>],
            Update_TICKscript = script, Update_Status = Disabled\<rparr> (engine s) = (r, e1)"
    by (cases "kapa_UpdateTask k \<lparr>Link_Href = href\<rparr>
           \<lparr>Update_Type = toTask (Rule_Query rule),
            Update_DBRPs = [\<lparr>DBRP_Database = Query_Database (Rule_Query rule),
                             DBRP_RetentionPolicy = Query_RetentionPolicy (Rule_Query rule)\<rparr>],
            Update_TICKscript = script, Update_Status = Disabled\<rparr> (engine s)") auto
  show "\<exists>opts rest. calls (snd (Update env href rule s)) =
           calls s @ CallUpdateTask \<lparr>Link_Href = href\<rparr> opts # rest \<and>
         Update_Type opts =
           (if Query_RawText (Rule_Query rule) = '''' then StreamTask else BatchTask)"
  proof (cases r)
    case (Inl err)
    then show ?thesis by (simp add: Update_unfold [OF k t u] toTask_def)
  next
    case (Inr task)
    let ?s1 = "s\<lparr>calls := calls s @ [CallUpdateTask \<lparr>Link_Href = href\<rparr>
           \<lparr>Update_Type = toTask (Rule_Query rule),
            Update_DBRPs = [\<lparr>DBRP_Database = Query_Database (Rule_Query rule),
                             DBRP_RetentionPolicy = Query_RetentionPolicy (Rule_Query rule)\<rparr>],
            Update_TICKscript = script, Update_Status = Disabled\<rparr>], engine := e1\<rparr>"
    have "snd (Update env href rule s) = snd (Enable env href ?s1)"
      using Inr by (simp add: Update_unfold [OF k t u] split: prod.splits sum.splits)
    with Enable_calls [of env href ?s1] show ?thesis
      by (auto simp: toTask_def)
  qed
next
  show "toTask (Rule_Query rule) =
     (if Query_RawText (Rule_Query rule) = '''' then StreamTask else BatchTask)"
    by (simp add: toTask_def)
qed

theorem task_kind_from_raw_text_witness:
  "(\<exists>opts. calls (snd (Create stub_env cpu_rule (stub_state [] 1 [''a'']))) =
        [CallCreateTask opts] \<and> Create_Type opts = StreamTask) \<and>
   (\<exists>opts. calls (snd (Create stub_env raw_rule (stub_state [] 1 [''a'']))) =
        [CallCreateTask opts] \<and> Create_Type opts = BatchTask) \<and>
   (\<exists>opts rest. calls (snd (Update stub_env (Href ''t1'') raw_rule
        (stub_state [stub_task ''t1'' ''alert cpu'' Enabled] 2 []))) =
        CallUpdateTask \<lparr>Link_Href = Href ''t1''\<rparr> opts # rest \<and> Update_Type opts = BatchTask)"
proof -
  have k: "kapaClient stub_env (self (stub_state ts n g)) = Inr stub_kapa" for ts n g
    by (simp add: stub_state_def kapaClient_stub)
  have i: "Client_ID (self (stub_state [] 1 [''a''])) (idsrc (stub_state [] 1 [''a''])) =
      (Inr ''a'', [])"
    by (simp add: stub_state_def stub_client_def)
  have t: "Client_Ticker (self (stub_state ts n g)) raw_rule = Inr ''alert cpu''" for ts n g
    by (simp add: stub_state_def stub_client_def raw_rule_def cpu_rule_def)
  have t': "Client_Ticker (self (stub_state ts n g)) cpu_rule = Inr ''alert cpu''" for ts n g
    by (simp add: stub_state_def stub_client_def cpu_rule_def)
  have r: "Query_RawText (Rule_Query raw_rule) \<noteq> ''''"
    by (simp add: raw_rule_def cpu_rule_def cpu_query_def)
  have r': "Query_RawText (Rule_Query cpu_rule) = ''''"
    by (simp add: cpu_rule_def cpu_query_def)
  have a: "\<exists>opts. calls (snd (Create stub_env cpu_rule (stub_state [] 1 [''a'']))) =
        [CallCreateTask opts] \<and> Create_Type opts = StreamTask"
    using task_kind_from_raw_text [of stub_env "stub_state [] 1 [''a'']" stub_kapa "''a''" "[]"
        cpu_rule "''alert cpu''"] k i t' r'
    by (simp add: stub_state_def)
  have b: "\<exists>opts. calls (snd (Create stub_env raw_rule (stub_state [] 1 [''a'']))) =
        [CallCreateTask opts] \<and> Create_Type opts = BatchTask"
    using task_kind_from_raw_text [of stub_env "stub_state [] 1 [''a'']" stub_kapa "''a''" "[]"
        raw_rule "''alert cpu''"] k i t r
    by (simp add: stub_state_def)
  have c: "\<exists>opts rest. calls (snd (Update stub_env (Href ''t1'') raw_rule
        (stub_state [stub_task ''t1'' ''alert cpu'' Enabled] 2 []))) =
        CallUpdateTask \<lparr>Link_Href = Href ''t1''\<rparr> opts # rest \<and> Update_Type opts = BatchTask"
    using task_kind_from_raw_text [of stub_env
        "stub_state [stub_task ''t1'' ''alert cpu'' Enabled] 2 []" stub_kapa _ _
        raw_rule "''alert cpu''" "Href ''t1''"] k t r
    by (simp add: stub_state_def)
  from a b c show ?thesis by blast
qed

text \<open>
  C1. \<open>Update href rule\<close> first sends one update request that carries the new script,
  the new binding, the recomputed kind and the status disabled. If the engine refuses it,
  \<open>Update\<close> returns that error and has sent nothing else: the engine is as that one
  refused request left it. Only if the engine accepts it does \<open>Update\<close> send a second
  request, which sets the status enabled and nothing else. If the engine refuses the
  second request, \<open>Update\<close> returns that error and sends no third request: the engine
  is as the accepted disabling request and the refused enabling request left it. If
  both are accepted, the task returned is built from the first answer.
\<close>

theorem Update_disable_apply_then_enable:
  fixes env :: "('e, 'p::zero) env" and s :: "('e, 'g, 'p) state"
    and href :: string and rule :: "'p AlertRule" and script :: TICKScript
  defines "link \<equiv> \<lparr>Link_Href = href\<rparr>"
    and "change \<equiv>
      \<lparr>Update_Type = toTask (Rule_Query rule),
       Update_DBRPs = [\<lparr>DBRP_Database = Query_Database (Rule_Query rule),
                        DBRP_RetentionPolicy = Query_RetentionPolicy (Rule_Query rule)\<rparr>],
       Update_TICKscript = script, Update_Status = Disabled\<rparr>"
    and "enable \<equiv>
      \<lparr>Update_Type = TaskType_zero, Update_DBRPs = [], Update_TICKscript = '''',
       Update_Status = Enabled\<rparr>"
  assumes k: "kapaClient env (self s) = Inr k"
    and t: "Client_Ticker (self s) rule = Inr script"
  shows
    "(kapa_UpdateTask k link change (engine s) = (Inl err, e1) \<longrightarrow>
        Update env href rule s =
          (Inl err, s\<lparr>calls := calls s @ [CallUpdateTask link change], engine := e1\<rparr>)) \<and>
     (kapa_UpdateTask k link change (engine s) = (Inr task, e1) \<longrightarrow>
      kapa_UpdateTask k link enable e1 = (Inl err, e2) \<longrightarrow>
        Update env href rule s =
          (Inl err,
           s\<lparr>calls := calls s @ [CallUpdateTask link change, CallUpdateTask link enable],
             engine := e2\<rparr>)) \<and>
     (kapa_UpdateTask k link change (engine s) = (Inr task, e1) \<longrightarrow>
      kapa_UpdateTask k link enable e1 = (Inr task2, e2) \<longrightarrow>
        Update env href rule s =
          (Inr \<lparr>Task_ID = KTask_ID task, Task_Href = Link_Href (KTask_Link task),
                Task_HrefOutput = HrefOutput env (KTask_ID task),
                Task_Rule = rule, Task_TICKScript = script\<rparr>,
           s\<lparr>calls := calls s @ [CallUpdateTask link change, CallUpdateTask link enable],
             engine := e2\<rparr>))"
proof (intro conjI impI)
  assume u: "kapa_UpdateTask k link change (engine s) = (Inl err, e1)"
  show "Update env href rule s =
          (Inl err, s\<lparr>calls := calls s @ [CallUpdateTask link change], engine := e1\<rparr>)"
    using Update_unfold [OF k t u [unfolded link_def change_def]]
    by (simp add: link_def change_def)
next
  assume u: "kapa_UpdateTask k link change (engine s) = (Inr task, e1)"
    and v: "kapa_UpdateTask k link enable e1 = (Inl err, e2)"
  let ?s1 = "s\<lparr>calls := calls s @ [CallUpdateTask link change], engine := e1\<rparr>"
  have k1: "kapaClient env (self ?s1) = Inr k"
    using k by simp
  have v1: "kapa_UpdateTask k \<lparr>Link_Href = href\<rparr>
      \<lparr>Update_Type = TaskType_zero, Update_DBRPs = [], Update_TICKscript = '''',
       Update_Status = Enabled\<rparr> (engine ?s1) = (Inl err, e2)"
    using v by (simp add: link_def enable_def)
  have "Enable env href ?s1 =
      (Inl err, ?s1\<lparr>calls := calls ?s1 @ [CallUpdateTask link enable], engine := e2\<rparr>)"
    unfolding Enable_def using updateStatus_unfold [OF k1 v1]
    by (simp add: link_def enable_def)
  then show "Update env href rule s =
          (Inl err,
           s\<lparr>calls := calls s @ [CallUpdateTask link change, CallUpdateTask link enable],
             engine := e2\<rparr>)"
    using Update_unfold [OF k t u [unfolded link_def change_def]]
    by (simp add: link_def change_def)
next
  assume u: "kapa_UpdateTask k link change (engine s) = (Inr task, e1)"
    and v: "kapa_UpdateTask k link enable e1 = (Inr task2, e2)"
  let ?s1 = "s\<lparr>calls := calls s @ [CallUpdateTask link change], engine := e1\<rparr>"
  have k1: "kapaClient env (self ?s1) = Inr k"
    using k by simp
  have v1: "kapa_UpdateTask k \<lparr>Link_Href = href\<rparr>
      \<lparr>Update_Type = TaskType_zero, Update_DBRPs = [], Update_TICKscript = '''',
       Update_Status = Enabled\<rparr> (engine ?s1) = (Inr task2, e2)"
    using v by (simp add: link_def enable_def)
  have "snd (Enable env href ?s1) =
      ?s1\<lparr>calls := calls ?s1 @ [CallUpdateTask link enable], engine := e2\<rparr>"
    and "\<exists>t2. fst (Enable env href ?s1) = Inr (t2 :: 'p Task)"
    unfolding Enable_def using updateStatus_unfold [OF k1 v1]
    by (simp_all add: link_def enable_def)
  then show "Update env href rule s =
          (Inr \<lparr>Task_ID = KTask_ID task, Task_Href = Link_Href (KTask_Link task),
                Task_HrefOutput = HrefOutput env (KTask_ID task),
                Task_Rule = rule, Task_TICKScript = script\<rparr>,
           s\<lparr>calls := calls s @ [CallUpdateTask link change, CallUpdateTask link enable],
             engine := e2\<rparr>)"
    using Update_unfold [OF k t u [unfolded link_def change_def]]
    by (auto simp: link_def change_def split: prod.splits sum.splits)
qed

lemma stub_state_sel:
  "self (stub_state ts n g) = stub_client"
  "calls (stub_state ts n g) = []"
  "engine (stub_state ts n g) = (ts, n)"
  "idsrc (stub_state ts n g) = g"
  by (simp_all add: stub_state_def)

lemma stub_Ticker:
  "Client_Ticker stub_client cpu_rule = Inr ''alert cpu''"
  "Client_Ticker stub_client raw_rule = Inr ''alert cpu''"
  "Client_Ticker stub_client (cpu_rule\<lparr>Rule_Name := ''''\<rparr>) = Inl (Err ''rule has no name'')"
  by (simp_all add: stub_client_def cpu_rule_def raw_rule_def)

theorem Update_disable_apply_then_enable_witness:
  "(fst (Update stub_env (Href ''t1'') raw_rule
          (stub_state [stub_task ''t1'' ''old'' Enabled] 0 [])) = Inl stub_down \<and>
    length (calls (snd (Update stub_env (Href ''t1'') raw_rule
          (stub_state [stub_task ''t1'' ''old'' Enabled] 0 [])))) = 1 \<and>
    engine (snd (Update stub_env (Href ''t1'') raw_rule
          (stub_state [stub_task ''t1'' ''old'' Enabled] 0 []))) =
      ([stub_task ''t1'' ''old'' Enabled], 0)) \<and>
   (fst (Update stub_env (Href ''t1'') raw_rule
          (stub_state [stub_task ''t1'' ''old'' Enabled] 1 [])) = Inl stub_down \<and>
    length (calls (snd (Update stub_env (Href ''t1'') raw_rule
          (stub_state [stub_task ''t1'' ''old'' Enabled] 1 [])))) = 2 \<and>
    map KTask_Status (fst (engine (snd (Update stub_env (Href ''t1'') raw_rule
          (stub_state [stub_task ''t1'' ''old'' Enabled] 1 []))))) = [Disabled] \<and>
    map KTask_TICKscript (fst (engine (snd (Update stub_env (Href ''t1'') raw_rule
          (stub_state [stub_task ''t1'' ''old'' Enabled] 1 []))))) = [''alert cpu'']) \<and>
   (Task_ID (projr (fst (Update stub_env (Href ''t1'') raw_rule
          (stub_state [stub_task ''t1'' ''old'' Enabled] 2 [])))) = ''t1'' \<and>
    length (calls (snd (Update stub_env (Href ''t1'') raw_rule
          (stub_state [stub_task ''t1'' ''old'' Enabled] 2 [])))) = 2 \<and>
    map KTask_Status (fst (engine (snd (Update stub_env (Href ''t1'') raw_rule
          (stub_state [stub_task ''t1'' ''old'' Enabled] 2 []))))) = [Enabled])"
proof -
  let ?link = "\<lparr>Link_Href = Href ''t1''\<rparr>"
  let ?change = "\<lparr>Update_Type = toTask (Rule_Query raw_rule),
       Update_DBRPs = [\<lparr>DBRP_Database = Query_Database (Rule_Query raw_rule),
                        DBRP_RetentionPolicy = Query_RetentionPolicy (Rule_Query raw_rule)\<rparr>],
       Update_TICKscript = ''alert cpu'', Update_Status = Disabled\<rparr>"
  let ?enable = "\<lparr>Update_Type = TaskType_zero, Update_DBRPs = [], Update_TICKscript = '''',
       Update_Status = Enabled\<rparr>"
  let ?old = "stub_task ''t1'' ''old'' Enabled"
  let ?mid = "stub_apply ?change ?old"
  let ?new = "stub_apply ?enable ?mid"
  have k: "kapaClient stub_env (self (stub_state [?old] n [])) = Inr stub_kapa" for n
    by (simp add: stub_state_sel kapaClient_stub)
  have t: "Client_Ticker (self (stub_state [?old] n [])) raw_rule = Inr ''alert cpu''" for n
    by (simp add: stub_state_sel stub_Ticker)
  have l: "KTask_Link ?old = ?link" "KTask_Link ?mid = ?link"
    by (simp_all add: stub_task_def stub_apply_def)
  have u0: "kapa_UpdateTask stub_kapa ?link ?change (engine (stub_state [?old] 0 [])) =
      (Inl stub_down, ([?old], 0))"
    by (simp add: stub_state_sel stub_kapa_def)
  have u1: "kapa_UpdateTask stub_kapa ?link ?change (engine (stub_state [?old] 1 [])) =
      (Inr ?mid, ([?mid], 0))"
    by (simp add: stub_state_sel stub_kapa_def l)
  have u2: "kapa_UpdateTask stub_kapa ?link ?change (engine (stub_state [?old] 2 [])) =
      (Inr ?mid, ([?mid], 1))"
    by (simp add: stub_state_sel stub_kapa_def l)
  have v1: "kapa_UpdateTask stub_kapa ?link ?enable ([?mid], 0) = (Inl stub_down, ([?mid], 0))"
    by (simp add: stub_kapa_def)
  have v2: "kapa_UpdateTask stub_kapa ?link ?enable ([?mid], 1) = (Inr ?new, ([?new], 0))"
    by (simp add: stub_kapa_def l)
  have a: "Update stub_env (Href ''t1'') raw_rule (stub_state [?old] 0 []) =
      (Inl stub_down, (stub_state [?old] 0 [])\<lparr>calls := calls (stub_state [?old] 0 []) @
         [CallUpdateTask ?link ?change], engine := ([?old], 0)\<rparr>)"
    using Update_disable_apply_then_enable [OF k [of 0] t [of 0], where href = "Href ''t1''"
        and err = stub_down and ?e1.0 = "([?old], 0)"] u0
    by simp
  have b: "Update stub_env (Href ''t1'') raw_rule (stub_state [?old] 1 []) =
      (Inl stub_down, (stub_state [?old] 1 [])\<lparr>calls := calls (stub_state [?old] 1 []) @
         [CallUpdateTask ?link ?change, CallUpdateTask ?link ?enable], engine := ([?mid], 0)\<rparr>)"
    using Update_disable_apply_then_enable [OF k [of 1] t [of 1], where href = "Href ''t1''"
        and task = ?mid and ?e1.0 = "([?mid], 0)" and err = stub_down
        and ?e2.0 = "([?mid], 0)"] u1 v1
    by simp
  have c: "Update stub_env (Href ''t1'') raw_rule (stub_state [?old] 2 []) =
      (Inr \<lparr>Task_ID = KTask_ID ?mid, Task_Href = Link_Href (KTask_Link ?mid),
            Task_HrefOutput = HrefOutput stub_env (KTask_ID ?mid),
            Task_Rule = raw_rule, Task_TICKScript = ''alert cpu''\<rparr>,
       (stub_state [?old] 2 [])\<lparr>calls := calls (stub_state [?old] 2 []) @
         [CallUpdateTask ?link ?change, CallUpdateTask ?link ?enable], engine := ([?new], 0)\<rparr>)"
    using Update_disable_apply_then_enable [OF k [of 2] t [of 2], where href = "Href ''t1''"
        and task = ?mid and ?e1.0 = "([?mid], 1)" and ?task2.0 = ?new
        and ?e2.0 = "([?new], 0)"] u2 v2
    by simp
  show ?thesis
    unfolding a b c
    by (simp add: stub_state_sel stub_apply_def stub_task_def)
qed

text \<open>
  C6. \<open>Enable href\<close> and \<open>Disable href\<close> send one update request whose payload sets the
  status (enabled, respectively disabled) and nothing else: no script, no bindings, no
  kind. The task they return carries the identifier, the reference and the script of
  the engine's answer, the output reference computed from that identifier, and a rule
  that is left at its zero value.
\<close>

theorem status_change_sets_only_status:
  fixes env :: "('e, 'p::zero) env" and s :: "('e, 'g, 'p) state"
  assumes k: "kapaClient env (self s) = Inr k"
  shows
    "(kapa_UpdateTask k \<lparr>Link_Href = href\<rparr>
        \<lparr>Update_Type = TaskType_zero, Update_DBRPs = [], Update_TICKscript = '''',
         Update_Status = Enabled\<rparr> (engine s) = (r, e') \<longrightarrow>
      Enable env href s =
        (case r of
           Inl err \<Rightarrow> Inl err
         | Inr task \<Rightarrow>
             Inr \<lparr>Task_ID = KTask_ID task, Task_Href = Link_Href (KTask_Link task),
                  Task_HrefOutput = HrefOutput env (KTask_ID task),
                  Task_Rule = zero_AlertRule, Task_TICKScript = KTask_TICKscript task\<rparr>,
         s\<lparr>calls := calls s @ [CallUpdateTask \<lparr>Link_Href = href\<rparr>
              \<lparr>Update_Type = TaskType_zero, Update_DBRPs = [], Update_TICKscript = '''',
               Update_Status = Enabled\<rparr>], engine := e'\<rparr>)) \<and>
     (kapa_UpdateTask k \<lparr>Link_Href = href\<rparr>
        \<lparr>Update_Type = TaskType_zero, Update_DBRPs = [], Update_TICKscript = '''',
         Update_Status = Disabled\<rparr> (engine s) = (r, e') \<longrightarrow>
      Disable env href s =
        (case r of
           Inl err \<Rightarrow> Inl err
         | Inr task \<Rightarrow>
             Inr \<lparr>Task_ID = KTask_ID task, Task_Href = Link_Href (KTask_Link task),
                  Task_HrefOutput = HrefOutput env (KTask_ID task),
                  Task_Rule = zero_AlertRule, Task_TICKScript = KTask_TICKscript task\<rparr>,
         s\<lparr>calls := calls s @ [CallUpdateTask \<lparr>Link_Href = href\<rparr>
              \<lparr>Update_Type = TaskType_zero, Update_DBRPs = [], Update_TICKscript = '''',
               Update_Status = Disabled\<rparr>], engine := e'\<rparr>))"
  unfolding Enable_def Disable_def
  using updateStatus_unfold [OF k] by blast

theorem status_change_sets_only_status_witness:
  "fst (Disable stub_env (Href ''t1'') (stub_state [stub_task ''t1'' ''old'' Enabled] 1 [])) =
     Inr \<lparr>Task_ID = ''t1'', Task_Href = ''/kapacitor/v1/tasks/t1'',
          Task_HrefOutput = ''/kapacitor/v1/tasks/t1/output'',
          Task_Rule = zero_AlertRule, Task_TICKScript = ''old''\<rparr> \<and>
   calls (snd (Disable stub_env (Href ''t1'')
       (stub_state [stub_task ''t1'' ''old'' Enabled] 1 []))) =
     [CallUpdateTask \<lparr>Link_Href = ''/kapacitor/v1/tasks/t1''\<rparr>
        \<lparr>Update_Type = TaskType_zero, Update_DBRPs = [], Update_TICKscript = '''',
         Update_Status = Disabled\<rparr>] \<and>
   engine (snd (Disable stub_env (Href ''t1'')
       (stub_state [stub_task ''t1'' ''old'' Enabled] 1 []))) =
     ([stub_task ''t1'' ''old'' Disabled], 0) \<and>
   fst (Enable stub_env (Href ''t1'') (stub_state [stub_task ''t1'' ''old'' Disabled] 0 [])) =
     Inl stub_down"
proof -
  let ?link = "\<lparr>Link_Href = Href ''t1''\<rparr>"
  let ?opts = "\<lambda>st. \<lparr>Update_Type = TaskType_zero, Update_DBRPs = [], Update_TICKscript = '''',
       Update_Status = st\<rparr>"
  have k: "kapaClient stub_env (self (stub_state ts n [])) = Inr stub_kapa" for ts n
    by (simp add: stub_state_sel kapaClient_stub)
  have d: "kapa_UpdateTask stub_kapa ?link (?opts Disabled)
      (engine (stub_state [stub_task ''t1'' ''old'' Enabled] 1 [])) =
      (Inr (stub_task ''t1'' ''old'' Disabled), ([stub_task ''t1'' ''old'' Disabled], 0))"
    by (simp add: stub_state_sel stub_kapa_def stub_task_def stub_apply_def)
  have e: "kapa_UpdateTask stub_kapa ?link (?opts Enabled)
      (engine (stub_state [stub_task ''t1'' ''old'' Disabled] 0 [])) =
      (Inl stub_down, ([stub_task ''t1'' ''old'' Disabled], 0))"
    by (simp add: stub_state_sel stub_kapa_def)
  have a: "Disable stub_env (Href ''t1'') (stub_state [stub_task ''t1'' ''old'' Enabled] 1 []) =
      (Inr \<lparr>Task_ID = KTask_ID (stub_task ''t1'' ''old'' Disabled),
            Task_Href = Link_Href (KTask_Link (stub_task ''t1'' ''old'' Disabled)),
            Task_HrefOutput = HrefOutput stub_env (KTask_ID (stub_task ''t1'' ''old'' Disabled)),
            Task_Rule = zero_AlertRule,
            Task_TICKScript = KTask_TICKscript (stub_task ''t1'' ''old'' Disabled)\<rparr>,
       (stub_state [stub_task ''t1'' ''old'' Enabled] 1 [])
         \<lparr>calls := calls (stub_state [stub_task ''t1'' ''old'' Enabled] 1 []) @
            [CallUpdateTask ?link (?opts Disabled)],
          engine := ([stub_task ''t1'' ''old'' Disabled], 0)\<rparr>)"
    using status_change_sets_only_status [OF k, THEN conjunct2, rule_format, OF d] by simp
  have b: "Enable stub_env (Href ''t1'') (stub_state [stub_task ''t1'' ''old'' Disabled] 0 []) =
      (Inl stub_down,
       (stub_state [stub_task ''t1'' ''old'' Disabled] 0 [])
         \<lparr>calls := calls (stub_state [stub_task ''t1'' ''old'' Disabled] 0 []) @
            [CallUpdateTask ?link (?opts Enabled)],
          engine := ([stub_task ''t1'' ''old'' Disabled], 0)\<rparr>)"
    using status_change_sets_only_status [OF k, THEN conjunct1, rule_format, OF e] by simp
  show ?thesis
    unfolding a b
    by (simp add: stub_state_sel stub_task_def HrefOutput_def Href_def stub_env_def)
qed

text \<open>
  C7. When the identifier source fails in \<open>Create\<close>, or the translator fails in \<open>Create\<close>
  or in \<open>Update\<close>, the operation returns that very error and sends no request to the
  engine: the request log and the engine are as before. (In \<open>Create\<close> the identifier
  source has been consulted by then.)
\<close>

theorem local_failure_sends_no_request:
  "(kapaClient env (self s) = Inr k \<longrightarrow> Client_ID (self s) (idsrc s) = (Inl err, g') \<longrightarrow>
      Create env rule s = (Inl err, s\<lparr>idsrc := g'\<rparr>) \<and>
      calls (snd (Create env rule s)) = calls s \<and>
      engine (snd (Create env rule s)) = engine s) \<and>
   (kapaClient env (self s) = Inr k \<longrightarrow> Client_ID (self s) (idsrc s) = (Inr tok, g') \<longrightarrow>
    Client_Ticker (self s) rule = Inl err \<longrightarrow>
      Create env rule s = (Inl err, s\<lparr>idsrc := g'\<rparr>) \<and>
      calls (snd (Create env rule s)) = calls s \<and>
      engine (snd (Create env rule s)) = engine s) \<and>
   (kapaClient env (self s) = Inr k \<longrightarrow> Client_Ticker (self s) rule = Inl err \<longrightarrow>
      Update env href rule s = (Inl err, s) \<and>
      calls (snd (Update env href rule s)) = calls s \<and>
      engine (snd (Update env href rule s)) = engine s)"
  by (simp add: Create_def Update_def Let_def)

theorem local_failure_sends_no_request_witness:
  "Create stub_env cpu_rule (stub_state [] 5 []) =
     (Inl (Err ''no identifier''), stub_state [] 5 []) \<and>
   Create stub_env (cpu_rule\<lparr>Rule_Name := ''''\<rparr>) (stub_state [] 5 [''a'', ''b'']) =
     (Inl (Err ''rule has no name''), stub_state [] 5 [''b'']) \<and>
   Update stub_env (Href ''t1'') (cpu_rule\<lparr>Rule_Name := ''''\<rparr>)
       (stub_state [stub_task ''t1'' ''old'' Enabled] 5 []) =
     (Inl (Err ''rule has no name''), stub_state [stub_task ''t1'' ''old'' Enabled] 5 [])"
proof -
  have k: "kapaClient stub_env (self (stub_state ts n g)) = Inr stub_kapa" for ts n g
    by (simp add: stub_state_sel kapaClient_stub)
  have i0: "Client_ID (self (stub_state [] 5 [])) (idsrc (stub_state [] 5 [])) =
      (Inl (Err ''no identifier''), [])"
    by (simp add: stub_state_sel stub_client_def)
  have i1: "Client_ID (self (stub_state [] 5 [''a'', ''b''])) (idsrc (stub_state [] 5 [''a'', ''b''])) =
      (Inr ''a'', [''b''])"
    by (simp add: stub_state_sel stub_client_def)
  have t: "Client_Ticker (self (stub_state ts n g)) (cpu_rule\<lparr>Rule_Name := ''''\<rparr>) =
      Inl (Err ''rule has no name'')" for ts n g
    by (simp add: stub_state_sel stub_Ticker)
  have a: "Create stub_env cpu_rule (stub_state [] 5 []) =
      (Inl (Err ''no identifier''), (stub_state [] 5 [])\<lparr>idsrc := []\<rparr>)"
    using local_failure_sends_no_request [where env = stub_env and s = "stub_state [] 5 []"
        and k = stub_kapa and err = "Err ''no identifier''" and g' = "[]" and rule = cpu_rule]
      k i0 by simp
  have b: "Create stub_env (cpu_rule\<lparr>Rule_Name := ''''\<rparr>) (stub_state [] 5 [''a'', ''b'']) =
      (Inl (Err ''rule has no name''), (stub_state [] 5 [''a'', ''b''])\<lparr>idsrc := [''b'']\<rparr>)"
    using local_failure_sends_no_request [where env = stub_env
        and s = "stub_state [] 5 [''a'', ''b'']" and k = stub_kapa and tok = "''a''"
        and err = "Err ''rule has no name''" and g' = "[''b'']"
        and rule = "cpu_rule\<lparr>Rule_Name := ''''\<rparr>"]
      k i1 t by simp
  have c: "Update stub_env (Href ''t1'') (cpu_rule\<lparr>Rule_Name := ''''\<rparr>)
       (stub_state [stub_task ''t1'' ''old'' Enabled] 5 []) =
     (Inl (Err ''rule has no name''), stub_state [stub_task ''t1'' ''old'' Enabled] 5 [])"
    using local_failure_sends_no_request [where env = stub_env
        and s = "stub_state [stub_task ''t1'' ''old'' Enabled] 5 []" and k = stub_kapa
        and err = "Err ''rule has no name''" and rule = "cpu_rule\<lparr>Rule_Name := ''''\<rparr>"
        and href = "Href ''t1''"]
      k t by simp
  show ?thesis
    unfolding a b c by (simp add: stub_state_def)
qed

text \<open>No operation assigns to a field of its receiver.\<close>

lemma self_Create: "self (snd (Create env rule s)) = self s"
  by (auto simp: Create_def CreateTask_def Let_def split: sum.splits prod.splits)

lemma self_Delete: "self (snd (Delete env href s)) = self s"
  by (auto simp: Delete_def DeleteTask_def split: sum.splits prod.splits)

lemma self_updateStatus: "self (snd (updateStatus env href status s)) = self s"
  by (auto simp: updateStatus_def UpdateTask_def Let_def split: sum.splits prod.splits)

lemma self_AllStatus: "self (snd (AllStatus env s)) = self s"
  by (auto simp: AllStatus_def ListTasks_def split: sum.splits prod.splits)

lemma self_Status: "self (snd (Status env href s)) = self s"
  by (auto simp: Status_def GetTask_def split: sum.splits prod.splits)

lemma self_All: "self (snd (All_Client env s)) = self s"
  by (auto simp: All_Client_def ListTasks_def split: sum.splits prod.splits)

lemma self_Get: "self (snd (Get env id' s)) = self s"
  by (auto simp: Get_def GetTask_def Let_def split: sum.splits prod.splits)

lemma self_Update: "self (snd (Update env href rule s)) = self s"
proof (cases "kapaClient env (self s)")
  case (Inl err)
  then show ?thesis by (simp add: Update_def)
next
  case k: (Inr k)
  show ?thesis
  proof (cases "Client_Ticker (self s) rule")
    case (Inl err)
    with k show ?thesis by (simp add: Update_def)
  next
    case t: (Inr script)
    obtain r e1 where u: "kapa_UpdateTask k \<lparr>Link_Href = href\<rparr>
           \<lparr>Update_Type = toTask (Rule_Query rule),
            Update_DBRPs = [\<lparr>DBRP_Database = Query_Database (Rule_Query rule),
                             DBRP_RetentionPolicy = Query_RetentionPolicy (Rule_Query rule)\<rparr>],
            Update_TICKscript = script, Update_Status = Disabled\<rparr> (engine s) = (r, e1)"
      by (cases "kapa_UpdateTask k \<lparr>Link_Href = href\<rparr>
           \<lparr>Update_Type = toTask (Rule_Query rule),
            Update_DBRPs = [\<lparr>DBRP_Database = Query_Database (Rule_Query rule),
                             DBRP_RetentionPolicy = Query_RetentionPolicy (Rule_Query rule)\<rparr>],
            Update_TICKscript = script, Update_Status = Disabled\<rparr> (engine s)") auto
    show ?thesis
    proof (cases r)
      case (Inl err)
      then show ?thesis by (simp add: Update_unfold [OF k t u])
    next
      case (Inr task)
      let ?s1 = "s\<lparr>calls := calls s @ [CallUpdateTask \<lparr>Link_Href = href\<rparr>
           \<lparr>Update_Type = toTask (Rule_Query rule),
            Update_DBRPs = [\<lparr>DBRP_Database = Query_Database (Rule_Query rule),
                             DBRP_RetentionPolicy = Query_RetentionPolicy (Rule_Query rule)\<rparr>],
            Update_TICKscript = script, Update_Status = Disabled\<rparr>], engine := e1\<rparr>"
      have "snd (Update env href rule s) = snd (Enable env href ?s1)"
        using Inr by (simp add: Update_unfold [OF k t u] split: prod.splits sum.splits)
      then show ?thesis
        by (simp add: Enable_def self_updateStatus)
    qed
  qed
qed

text \<open>
  C9. Every operation of the orchestrator (\<open>Create\<close>, \<open>Delete\<close>, \<open>Enable\<close>, \<open>Disable\<close>,
  \<open>Update\<close>, \<open>Get\<close>, \<open>All\<close>, \<open>Status\<close>, \<open>AllStatus\<close>) leaves the \<open>Client\<close> struct as it
  found it: URL, user name, password, identifier source and translator are the same
  after the call as before, whatever the outcome.
\<close>

theorem operations_leave_client_unchanged:
  "self (snd (Create env rule s)) = self s \<and>
   self (snd (Delete env href s)) = self s \<and>
   self (snd (Enable env href s)) = self s \<and>
   self (snd (Disable env href s)) = self s \<and>
   self (snd (Update env href rule s)) = self s \<and>
   self (snd (Get env id' s)) = self s \<and>
   self (snd (All_Client env s)) = self s \<and>
   self (snd (Status env href s)) = self s \<and>
   self (snd (AllStatus env s)) = self s"
  by (simp add: self_Create self_Delete Enable_def Disable_def self_updateStatus self_Update
      self_Get self_All self_Status self_AllStatus)

theorem operations_leave_client_unchanged_witness:
  "self (snd (Create stub_env cpu_rule (stub_state [] 1 [''a'']))) = stub_client \<and>
   self (snd (Delete stub_env (Href ''t1'')
     (stub_state [stub_task ''t1'' ''old'' Enabled] 1 []))) = stub_client \<and>
   self (snd (Update stub_env (Href ''t1'') raw_rule
     (stub_state [stub_task ''t1'' ''old'' Enabled] 1 []))) = stub_client \<and>
   self (snd (Get stub_env ''t1'' (stub_state [stub_task ''t1'' ''old'' Enabled] 1 []))) =
     stub_client \<and>
   self (snd (AllStatus stub_env (stub_state [stub_task ''t1'' ''old'' Enabled] 0 []))) =
     stub_client"
  using operations_leave_client_unchanged [of stub_env cpu_rule "stub_state [] 1 [''a'']"]
    operations_leave_client_unchanged [of stub_env raw_rule
      "stub_state [stub_task ''t1'' ''old'' Enabled] 1 []" "Href ''t1''" "''t1''"]
    operations_leave_client_unchanged [of stub_env raw_rule
      "stub_state [stub_task ''t1'' ''old'' Enabled] 0 []"]
  by (simp add: stub_state_sel)

text \<open>The requests each operation adds to the log.\<close>

lemma only_prefixed_creates_append:
  "only_prefixed_creates (cs @ ds) = (only_prefixed_creates cs \<and> only_prefixed_creates ds)"
  by (simp add: only_prefixed_creates_def)

lemma calls_Create:
  "calls (snd (Create env rule s)) = calls s \<or>
   (\<exists>tok g' opts. Client_ID (self s) (idsrc s) = (Inr tok, g') \<and>
      calls (snd (Create env rule s)) = calls s @ [CallCreateTask opts] \<and>
      Create_ID opts = Prefix @ tok)"
  by (auto simp: Create_def CreateTask_def Let_def split: sum.splits prod.splits)

lemma calls_Delete:
  "calls (snd (Delete env href s)) = calls s \<or>
   calls (snd (Delete env href s)) = calls s @ [CallDeleteTask \<lparr>Link_Href = href\<rparr>]"
  by (auto simp: Delete_def DeleteTask_def split: sum.splits prod.splits)

lemma calls_updateStatus:
  "calls (snd (updateStatus env href status s)) = calls s \<or>
   calls (snd (updateStatus env href status s)) =
     calls s @ [CallUpdateTask \<lparr>Link_Href = href\<rparr>
       \<lparr>Update_Type = TaskType_zero, Update_DBRPs = [], Update_TICKscript = '''',
        Update_Status = status\<rparr>]"
  by (auto simp: updateStatus_def UpdateTask_def Let_def split: sum.splits prod.splits)

lemma calls_AllStatus:
  "calls (snd (AllStatus env s)) = calls s \<or>
   calls (snd (AllStatus env s)) = calls s @ [CallListTasks \<lparr>List_Fields = [''status'']\<rparr>]"
  by (auto simp: AllStatus_def ListTasks_def split: sum.splits prod.splits)

lemma calls_Status:
  "calls (snd (Status env href s)) = calls s \<or>
   calls (snd (Status env href s)) = calls s @ [CallTask \<lparr>Link_Href = href\<rparr>]"
  by (auto simp: Status_def GetTask_def split: sum.splits prod.splits)

lemma calls_All:
  "calls (snd (All_Client env s)) = calls s \<or>
   calls (snd (All_Client env s)) = calls s @ [CallListTasks \<lparr>List_Fields = []\<rparr>]"
  by (auto simp: All_Client_def ListTasks_def split: sum.splits prod.splits)

lemma calls_Get:
  "calls (snd (Get env id' s)) = calls s \<or>
   calls (snd (Get env id' s)) = calls s @ [CallTask \<lparr>Link_Href = Href id'\<rparr>]"
  by (auto simp: Get_def GetTask_def Let_def split: sum.splits prod.splits)

lemma calls_Update:
  "\<exists>new. calls (snd (Update env href rule s)) = calls s @ new \<and>
     (\<forall>c \<in> set new. \<exists>link opts. c = CallUpdateTask link opts)"
proof (cases "kapaClient env (self s)")
  case (Inl err)
  then show ?thesis by (simp add: Update_def)
next
  case k: (Inr k)
  show ?thesis
  proof (cases "Client_Ticker (self s) rule")
    case (Inl err)
    with k show ?thesis by (simp add: Update_def)
  next
    case t: (Inr script)
    obtain r e1 where u: "kapa_UpdateTask k \<lparr>Link_Href = href\<rparr>
           \<lparr>Update_Type = toTask (Rule_Query rule),
            Update_DBRPs = [\<lparr>DBRP_Database = Query_Database (Rule_Query rule),
                             DBRP_RetentionPolicy = Query_RetentionPolicy (Rule_Query rule)\<rparr>],
            Update_TICKscript = script, Update_Status = Disabled\<rparr> (engine s) = (r, e1)"
      by (cases "kapa_UpdateTask k \<lparr>Link_Href = href\<rparr>
           \<lparr>Update_Type = toTask (Rule_Query rule),
            Update_DBRPs = [\<lparr>DBRP_Database = Query_Database (Rule_Query rule),
                             DBRP_RetentionPolicy = Query_RetentionPolicy (Rule_Query rule)\<rparr>],
            Update_TICKscript = script, Update_Status = Disabled\<rparr> (engine s)") auto
    show ?thesis
    proof (cases r)
      case (Inl err)
      then show ?thesis by (simp add: Update_unfold [OF k t u])
    next
      case (Inr task)
      let ?s1 = "s\<lparr>calls := calls s @ [CallUpdateTask \<lparr>Link_Href = href\<rparr>
           \<lparr>Update_Type = toTask (Rule_Query rule),
            Update_DBRPs = [\<lparr>DBRP_Database = Query_Database (Rule_Query rule),
                             DBRP_RetentionPolicy = Query_RetentionPolicy (Rule_Query rule)\<rparr>],
            Update_TICKscript = script, Update_Status = Disabled\<rparr>], engine := e1\<rparr>"
      have "snd (Update env href rule s) = snd (Enable env href ?s1)"
        using Inr by (simp add: Update_unfold [OF k t u] split: prod.splits sum.splits)
      with Enable_calls [of env href ?s1] show ?thesis
        by auto
    qed
  qed
qed

lemma Create_success:
  assumes "Create env rule s = (Inr t, s')"
  shows "\<exists>tok g' opts. Client_ID (self s) (idsrc s) = (Inr tok, g') \<and>
      calls s' = calls s @ [CallCreateTask opts] \<and> Create_ID opts = Prefix @ tok \<and>
      Task_ID t = Prefix @ tok \<and> Rule_ID (Task_Rule t) = Prefix @ tok"
  using assms
  by (auto simp: Create_def CreateTask_def Let_def split: sum.splits prod.splits)

text \<open>
  C3. When \<open>Create\<close> succeeds, the identifier it passed to the engine's creation request
  is the reserved prefix \<open>chronograf-v1-\<close> followed by the token the identifier source
  produced, and the identifier of the returned task and of the rule inside it are that
  same prefixed identifier. No operation ever sends a creation request with an identifier
  that lacks the prefix: a request log whose creation requests all carry the prefix
  still has that property after any of the nine operations.
\<close>

theorem Create_identifier_has_prefix:
  "(Create env rule s = (Inr t, s') \<longrightarrow>
      (\<exists>tok g' opts. Client_ID (self s) (idsrc s) = (Inr tok, g') \<and>
         calls s' = calls s @ [CallCreateTask opts] \<and> Create_ID opts = Prefix @ tok \<and>
         Task_ID t = Prefix @ tok \<and> Rule_ID (Task_Rule t) = Prefix @ tok)) \<and>
   Prefix = ''chronograf-v1-'' \<and>
   (only_prefixed_creates (calls s) \<longrightarrow>
      only_prefixed_creates (calls (snd (Create env rule s))) \<and>
      only_prefixed_creates (calls (snd (Delete env href s))) \<and>
      only_prefixed_creates (calls (snd (Enable env href s))) \<and>
      only_prefixed_creates (calls (snd (Disable env href s))) \<and>
      only_prefixed_creates (calls (snd (Update env href rule s))) \<and>
      only_prefixed_creates (calls (snd (Get env id' s))) \<and>
      only_prefixed_creates (calls (snd (All_Client env s))) \<and>
      only_prefixed_creates (calls (snd (Status env href s))) \<and>
      only_prefixed_creates (calls (snd (AllStatus env s))))"
proof (intro conjI impI)
  assume "Create env rule s = (Inr t, s')"
  then show "\<exists>tok g' opts. Client_ID (self s) (idsrc s) = (Inr tok, g') \<and>
         calls s' = calls s @ [CallCreateTask opts] \<and> Create_ID opts = Prefix @ tok \<and>
         Task_ID t = Prefix @ tok \<and> Rule_ID (Task_Rule t) = Prefix @ tok"
    by (rule Create_success)
next
  show "Prefix = ''chronograf-v1-''"
    by (simp add: Prefix_def)
next
  assume p: "only_prefixed_creates (calls s)"
  show "only_prefixed_creates (calls (snd (Create env rule s)))"
    using calls_Create [of env rule s] p
    by (auto simp: only_prefixed_creates_append) (simp add: only_prefixed_creates_def)
  show "only_prefixed_creates (calls (snd (Delete env href s)))"
    using calls_Delete [of env href s] p
    by (auto simp: only_prefixed_creates_append) (simp add: only_prefixed_creates_def)
  show "only_prefixed_creates (calls (snd (Enable env href s)))"
    using calls_updateStatus [of env href Enabled s] p
    by (auto simp: Enable_def only_prefixed_creates_append)
      (simp add: only_prefixed_creates_def)
  show "only_prefixed_creates (calls (snd (Disable env href s)))"
    using calls_updateStatus [of env href Disabled s] p
    by (auto simp: Disable_def only_prefixed_creates_append)
      (simp add: only_prefixed_creates_def)
  show "only_prefixed_creates (calls (snd (Update env href rule s)))"
  proof -
    obtain new where n: "calls (snd (Update env href rule s)) = calls s @ new"
      and u: "\<forall>c \<in> set new. \<exists>link opts. c = CallUpdateTask link opts"
      using calls_Update [of env href rule s] by blast
    from u have "only_prefixed_creates new"
      by (auto simp: only_prefixed_creates_def list_all_iff)
    with n p show ?thesis
      by (simp add: only_prefixed_creates_append)
  qed
  show "only_prefixed_creates (calls (snd (Get env id' s)))"
    using calls_Get [of env id' s] p
    by (auto simp: only_prefixed_creates_append) (simp add: only_prefixed_creates_def)
  show "only_prefixed_creates (calls (snd (All_Client env s)))"
    using calls_All [of env s] p
    by (auto simp: only_prefixed_creates_append) (simp add: only_prefixed_creates_def)
  show "only_prefixed_creates (calls (snd (Status env href s)))"
    using calls_Status [of env href s] p
    by (auto simp: only_prefixed_creates_append) (simp add: only_prefixed_creates_def)
  show "only_prefixed_creates (calls (snd (AllStatus env s)))"
    using calls_AllStatus [of env s] p
    by (auto simp: only_prefixed_creates_append) (simp add: only_prefixed_creates_def)
qed

lemma stub_env_sel:
  "HTTPEndpoint stub_env = ''output''"
  "Reverse stub_env ''alert cpu'' = Inr cpu_rule"
  "script \<noteq> ''alert cpu'' \<Longrightarrow> Reverse stub_env script = Inl (Err ''not a rule'')"
  "Status_String stub_env Enabled = ''enabled''"
  "Status_String stub_env Disabled = ''disabled''"
  by (simp_all add: stub_env_def)

theorem Create_identifier_has_prefix_witness:
  "Task_ID (projr (fst (Create stub_env cpu_rule (stub_state [] 1 [''a''])))) =
     ''chronograf-v1-a'' \<and>
   Rule_ID (Task_Rule (projr (fst (Create stub_env cpu_rule (stub_state [] 1 [''a'']))))) =
     ''chronograf-v1-a'' \<and>
   (\<exists>opts. calls (snd (Create stub_env cpu_rule (stub_state [] 1 [''a'']))) =
      [CallCreateTask opts] \<and> Create_ID opts = ''chronograf-v1-a'') \<and>
   only_prefixed_creates (calls (stub_state [] 1 [''a''])) \<and>
   only_prefixed_creates (calls (snd (Create stub_env cpu_rule (stub_state [] 1 [''a''])))) \<and>
   only_prefixed_creates (calls (snd (Update stub_env (Href ''t1'') cpu_rule
      (stub_state [] 1 [''a'']))))"
proof -
  let ?s = "stub_state [] 1 [''a'']"
  let ?t = "\<lparr>Task_ID = ''chronograf-v1-a'', Task_Href = ''/kapacitor/v1/tasks/chronograf-v1-a'',
      Task_HrefOutput = ''/kapacitor/v1/tasks/chronograf-v1-a/output'',
      Task_Rule = cpu_rule\<lparr>Rule_ID := ''chronograf-v1-a''\<rparr>,
      Task_TICKScript = ''alert cpu''\<rparr>"
  have i: "Client_ID (self ?s) (idsrc ?s) = (Inr ''a'', [])"
    by (simp add: stub_state_sel stub_client_def)
  have k: "kapaClient stub_env (self ?s) = Inr stub_kapa"
    by (simp add: stub_state_sel kapaClient_stub)
  have tk: "Client_Ticker (self ?s) cpu_rule = Inr ''alert cpu''"
    by (simp add: stub_state_sel stub_Ticker)
  let ?opts = "\<lparr>Create_ID = Prefix @ ''a'', Create_Type = toTask (Rule_Query cpu_rule),
      Create_DBRPs = [\<lparr>DBRP_Database = Query_Database (Rule_Query cpu_rule),
                       DBRP_RetentionPolicy = Query_RetentionPolicy (Rule_Query cpu_rule)\<rparr>],
      Create_TICKscript = ''alert cpu'', Create_Status = Enabled\<rparr>"
  let ?task = "\<lparr>KTask_ID = Create_ID ?opts,
      KTask_Link = \<lparr>Link_Href = Href (Create_ID ?opts)\<rparr>,
      KTask_Type = Create_Type ?opts, KTask_DBRPs = Create_DBRPs ?opts,
      KTask_TICKscript = Create_TICKscript ?opts, KTask_Status = Create_Status ?opts\<rparr>"
  have c: "kapa_CreateTask stub_kapa ?opts (engine ?s) = (Inr ?task, ([?task], 0))"
    by (simp add: stub_state_sel stub_kapa_def Let_def)
  have f: "fst (Create stub_env cpu_rule ?s) = Inr ?t"
    using Create_unfold [OF k i tk c]
    by (simp add: Prefix_def Href_def HrefOutput_def stub_env_sel)
  have ev: "Create stub_env cpu_rule ?s = (Inr ?t, snd (Create stub_env cpu_rule ?s))"
    using f by (metis prod.collapse)
  have p: "only_prefixed_creates (calls ?s)"
    by (simp add: stub_state_sel only_prefixed_creates_def)
  note th = Create_identifier_has_prefix [where env = stub_env and rule = cpu_rule and s = ?s
      and t = ?t and s' = "snd (Create stub_env cpu_rule ?s)" and href = "Href ''t1''"]
  from th ev obtain tok g' opts where
    "Client_ID (self ?s) (idsrc ?s) = (Inr tok, g')"
    and c: "calls (snd (Create stub_env cpu_rule ?s)) = calls ?s @ [CallCreateTask opts]"
    and o: "Create_ID opts = Prefix @ tok"
    and "Task_ID ?t = Prefix @ tok"
    by blast
  with i have tok: "tok = ''a''"
    by simp
  have a: "\<exists>opts. calls (snd (Create stub_env cpu_rule ?s)) = [CallCreateTask opts] \<and>
      Create_ID opts = ''chronograf-v1-a''"
    using c o tok by (simp add: stub_state_sel Prefix_def)
  have b: "only_prefixed_creates (calls (snd (Create stub_env cpu_rule ?s)))"
    "only_prefixed_creates (calls (snd (Update stub_env (Href ''t1'') cpu_rule ?s)))"
    using th p by blast+
  show ?thesis
    using a b p f by simp
qed

text \<open>\<open>Get\<close> once the handle exists and the engine has answered the fetch.\<close>

lemma Get_unfold:
  fixes env :: "('e, 'p::zero) env" and s :: "('e, 'g, 'p) state"
  assumes "kapaClient env (self s) = Inr k"
    and "kapa_Task k \<lparr>Link_Href = Href id'\<rparr> (engine s) = (r, e1)"
  shows "Get env id' s =
    (case r of
       Inl err \<Rightarrow> (zero_AlertRule, Some ErrAlertNotFound)
     | Inr task \<Rightarrow>
         (case Reverse env (KTask_TICKscript task) of
            Inl err \<Rightarrow>
              (zero_AlertRule\<lparr>Rule_ID := KTask_ID task, Rule_Name := KTask_ID task,
                              Rule_TICKScript := KTask_TICKscript task\<rparr>, None)
          | Inr rule \<Rightarrow>
              (rule\<lparr>Rule_ID := KTask_ID task, Rule_TICKScript := KTask_TICKscript task\<rparr>,
               None)),
     s\<lparr>calls := calls s @ [CallTask \<lparr>Link_Href = Href id'\<rparr>], engine := e1\<rparr>)"
  using assms by (simp add: Get_def GetTask_def Let_def split: sum.splits)

text \<open>
  C2. \<open>Get\<close> treats its two failures differently. If the fetch of the task fails,
  \<open>Get\<close> returns the error \<open>ErrAlertNotFound\<close> together with a zero-value rule, whatever
  the engine's error was. If the fetch succeeds and the reverse translation of the
  fetched script fails, \<open>Get\<close> returns no error: it returns a rule whose identifier and
  name are both the identifier of the fetched task, whose script is the fetched script
  unchanged, and whose other fields are unset.
\<close>

theorem Get_fetch_failure_fatal_reverse_failure_degraded:
  fixes env :: "('e, 'p::zero) env" and s :: "('e, 'g, 'p) state"
  assumes k: "kapaClient env (self s) = Inr k"
  shows
    "(kapa_Task k \<lparr>Link_Href = Href id'\<rparr> (engine s) = (Inl err, e1) \<longrightarrow>
        fst (Get env id' s) = (zero_AlertRule, Some ErrAlertNotFound)) \<and>
     (kapa_Task k \<lparr>Link_Href = Href id'\<rparr> (engine s) = (Inr task, e1) \<longrightarrow>
      Reverse env (KTask_TICKscript task) = Inl err' \<longrightarrow>
        fst (Get env id' s) =
          (\<lparr>Rule_ID = KTask_ID task, Rule_Name = KTask_ID task,
            Rule_Query = zero_QueryConfig, Rule_TICKScript = KTask_TICKscript task,
            Rule_Params = 0\<rparr>, None))"
proof (intro conjI impI)
  assume "kapa_Task k \<lparr>Link_Href = Href id'\<rparr> (engine s) = (Inl err, e1)"
  from Get_unfold [OF k this]
  show "fst (Get env id' s) = (zero_AlertRule, Some ErrAlertNotFound)"
    by simp
next
  assume f: "kapa_Task k \<lparr>Link_Href = Href id'\<rparr> (engine s) = (Inr task, e1)"
    and r: "Reverse env (KTask_TICKscript task) = Inl err'"
  from Get_unfold [OF k f] r
  show "fst (Get env id' s) =
          (\<lparr>Rule_ID = KTask_ID task, Rule_Name = KTask_ID task,
            Rule_Query = zero_QueryConfig, Rule_TICKScript = KTask_TICKscript task,
            Rule_Params = 0\<rparr>, None)"
    by (simp add: zero_AlertRule_def)
qed

lemma stub_task_sel:
  "KTask_ID (stub_task tid script st) = tid"
  "KTask_Link (stub_task tid script st) = \<lparr>Link_Href = Href tid\<rparr>"
  "KTask_TICKscript (stub_task tid script st) = script"
  "KTask_Status (stub_task tid script st) = st"
  by (simp_all add: stub_task_def)

theorem Get_fetch_failure_fatal_reverse_failure_degraded_witness:
  "fst (Get stub_env ''t2'' (stub_state [] 1 [])) = (zero_AlertRule, Some ErrAlertNotFound) \<and>
   fst (Get stub_env ''t2'' (stub_state [stub_task ''t2'' ''batch |query()'' Enabled] 0 [])) =
     (zero_AlertRule, Some ErrAlertNotFound) \<and>
   fst (Get stub_env ''t2'' (stub_state [stub_task ''t2'' ''batch |query()'' Enabled] 1 [])) =
     (\<lparr>Rule_ID = ''t2'', Rule_Name = ''t2'', Rule_Query = zero_QueryConfig,
       Rule_TICKScript = ''batch |query()'', Rule_Params = 0\<rparr>, None)"
proof -
  let ?t = "stub_task ''t2'' ''batch |query()'' Enabled"
  have k: "kapaClient stub_env (self (stub_state ts n [])) = Inr stub_kapa" for ts n
    by (simp add: stub_state_sel kapaClient_stub)
  have f0: "kapa_Task stub_kapa \<lparr>Link_Href = Href ''t2''\<rparr> (engine (stub_state [] 1 [])) =
      (Inl (Err ''no such task''), ([], 0))"
    by (simp add: stub_state_sel stub_kapa_def)
  have f1: "kapa_Task stub_kapa \<lparr>Link_Href = Href ''t2''\<rparr> (engine (stub_state [?t] 0 [])) =
      (Inl stub_down, ([?t], 0))"
    by (simp add: stub_state_sel stub_kapa_def)
  have f2: "kapa_Task stub_kapa \<lparr>Link_Href = Href ''t2''\<rparr> (engine (stub_state [?t] 1 [])) =
      (Inr ?t, ([?t], 0))"
    by (simp add: stub_state_sel stub_kapa_def stub_task_sel)
  have r: "Reverse stub_env (KTask_TICKscript ?t) = Inl (Err ''not a rule'')"
    by (simp add: stub_task_def stub_env_sel)
  note th = Get_fetch_failure_fatal_reverse_failure_degraded
  have a: "fst (Get stub_env ''t2'' (stub_state [] 1 [])) =
      (zero_AlertRule, Some ErrAlertNotFound)"
    using th [OF k, THEN conjunct1, rule_format, OF f0] .
  have b: "fst (Get stub_env ''t2'' (stub_state [?t] 0 [])) =
      (zero_AlertRule, Some ErrAlertNotFound)"
    using th [OF k, THEN conjunct1, rule_format, OF f1] .
  have c: "fst (Get stub_env ''t2'' (stub_state [?t] 1 [])) =
      (\<lparr>Rule_ID = KTask_ID ?t, Rule_Name = KTask_ID ?t, Rule_Query = zero_QueryConfig,
        Rule_TICKScript = KTask_TICKscript ?t, Rule_Params = 0\<rparr>, None)"
    using th [OF k, THEN conjunct2, rule_format, OF f2 r] .
  show ?thesis
    using a b c by (simp add: stub_task_def)
qed

text \<open>
  The loop of \<open>All\<close>: one step stores the conversion of one task under its identifier;
  the map it builds is the one that, scanning the list from its end, finds each
  identifier's last task.
\<close>

lemma All_loop_step:
  "All_loop env (task # tasks) alerts =
     All_loop env tasks (alerts(KTask_ID task \<mapsto> converted env task))"
  by (simp add: converted_def degraded_rule_def zero_AlertRule_def split: sum.splits)

lemma All_loop_map_of:
  "All_loop env tasks alerts =
     alerts ++ map_of (rev (map (\<lambda>t. (KTask_ID t, converted env t)) tasks))"
proof (induction tasks arbitrary: alerts)
  case Nil
  show ?case by simp
next
  case (Cons task tasks)
  have "All_loop env (task # tasks) alerts =
      alerts(KTask_ID task \<mapsto> converted env task) ++
        map_of (rev (map (\<lambda>t. (KTask_ID t, converted env t)) tasks))"
    unfolding All_loop_step by (rule Cons.IH)
  also have "\<dots> = alerts ++ map_of (rev (map (\<lambda>t. (KTask_ID t, converted env t)) (task # tasks)))"
    by (auto simp: fun_eq_iff map_add_def split: option.splits)
  finally show ?case .
qed

lemma dom_All_loop:
  "dom (All_loop env tasks alerts) = dom alerts \<union> KTask_ID ` set tasks"
proof (induction tasks arbitrary: alerts)
  case Nil
  show ?case by simp
next
  case (Cons task tasks)
  show ?case
    unfolding All_loop_step Cons.IH by auto
qed

lemma All_loop_other:
  "tid \<notin> KTask_ID ` set tasks \<Longrightarrow> All_loop env tasks alerts tid = alerts tid"
proof (induction tasks arbitrary: alerts)
  case Nil
  show ?case by simp
next
  case (Cons task tasks)
  then show ?case
    unfolding All_loop_step by auto
qed

lemma All_loop_distinct:
  "distinct (map KTask_ID tasks) \<Longrightarrow> task \<in> set tasks \<Longrightarrow>
   All_loop env tasks alerts (KTask_ID task) = Some (converted env task)"
proof (induction tasks arbitrary: alerts)
  case Nil
  then show ?case by simp
next
  case (Cons t tasks)
  show ?case
  proof (cases "task = t")
    case True
    with Cons.prems have "KTask_ID task \<notin> KTask_ID ` set tasks"
      by auto
    then show ?thesis
      unfolding All_loop_step using True by (simp add: All_loop_other)
  next
    case False
    with Cons.prems have "distinct (map KTask_ID tasks)" and "task \<in> set tasks"
      by auto
    then show ?thesis
      unfolding All_loop_step by (rule Cons.IH)
  qed
qed

lemma All_loop_entry:
  "All_loop env tasks alerts tid = Some r \<Longrightarrow>
   alerts tid = Some r \<or> (\<exists>task \<in> set tasks. KTask_ID task = tid \<and> r = converted env task)"
proof (induction tasks arbitrary: alerts)
  case Nil
  then show ?case by simp
next
  case (Cons t tasks)
  from Cons.prems have "All_loop env tasks (alerts(KTask_ID t \<mapsto> converted env t)) tid = Some r"
    by (simp only: All_loop_step)
  from Cons.IH [OF this] show ?case
    by (auto split: if_splits)
qed


lemma card_dom_distinct:
  "distinct (map KTask_ID tasks) \<Longrightarrow> card (KTask_ID ` set tasks) = length tasks"
  by (metis distinct_card length_map set_map)

lemma All_unfold:
  fixes env :: "('e, 'p::zero) env" and s :: "('e, 'g, 'p) state"
  assumes "kapaClient env (self s) = Inr k"
    and "kapa_ListTasks k \<lparr>List_Fields = []\<rparr> (engine s) = (r, e1)"
  shows "All_Client env s =
    (case r of Inl err \<Rightarrow> Inl err | Inr tasks \<Rightarrow> Inr (All_loop env tasks Map.empty),
     s\<lparr>calls := calls s @ [CallListTasks \<lparr>List_Fields = []\<rparr>], engine := e1\<rparr>)"
  using assms by (simp add: All_Client_def ListTasks_def split: sum.splits)

text \<open>The loop of \<open>AllStatus\<close>, likewise.\<close>

lemma dom_AllStatus_loop:
  "dom (AllStatus_loop env tasks m) = dom m \<union> KTask_ID ` set tasks"
  by (induction tasks arbitrary: m) auto

lemma AllStatus_loop_other:
  "tid \<notin> KTask_ID ` set tasks \<Longrightarrow> AllStatus_loop env tasks m tid = m tid"
  by (induction tasks arbitrary: m) auto

lemma AllStatus_loop_distinct:
  "distinct (map KTask_ID tasks) \<Longrightarrow> task \<in> set tasks \<Longrightarrow>
   AllStatus_loop env tasks m (KTask_ID task) = Some (Status_String env (KTask_Status task))"
proof (induction tasks arbitrary: m)
  case Nil
  then show ?case by simp
next
  case (Cons t tasks)
  show ?case
  proof (cases "task = t")
    case True
    with Cons.prems have "KTask_ID task \<notin> KTask_ID ` set tasks"
      by auto
    then show ?thesis
      using True by (simp add: AllStatus_loop_other)
  next
    case False
    with Cons.prems have "distinct (map KTask_ID tasks)" and "task \<in> set tasks"
      by auto
    then show ?thesis
      by (simp add: Cons.IH)
  qed
qed

lemma AllStatus_loop_entry:
  "AllStatus_loop env tasks m tid = Some label \<Longrightarrow>
   m tid = Some label \<or>
   (\<exists>task \<in> set tasks. KTask_ID task = tid \<and> label = Status_String env (KTask_Status task))"
proof (induction tasks arbitrary: m)
  case Nil
  then show ?case by simp
next
  case (Cons t tasks)
  from Cons.prems have
    "AllStatus_loop env tasks (m(KTask_ID t \<mapsto> Status_String env (KTask_Status t))) tid =
       Some label"
    by simp
  from Cons.IH [OF this] show ?case
    by (auto split: if_splits)
qed

lemma AllStatus_unfold:
  assumes "kapaClient env (self s) = Inr k"
    and "kapa_ListTasks k \<lparr>List_Fields = [''status'']\<rparr> (engine s) = (r, e1)"
  shows "AllStatus env s =
    (case r of Inl err \<Rightarrow> Inl err | Inr tasks \<Rightarrow> Inr (AllStatus_loop env tasks Map.empty),
     s\<lparr>calls := calls s @ [CallListTasks \<lparr>List_Fields = [''status'']\<rparr>], engine := e1\<rparr>)"
  using assms by (simp add: AllStatus_def ListTasks_def split: sum.splits)

text \<open>
  C4, as stated: for every list of N tasks returned by the engine, \<open>All\<close> returns a map
  with exactly N entries. This fails when two tasks of the list carry the same
  identifier: the map is keyed by identifier, so the later task replaces the earlier
  one. The in-memory engine below lists two tasks named \<open>t1\<close>; \<open>All\<close> returns one entry,
  and it is the conversion of the second task, not of the first.
\<close>

theorem All_exactly_N_entries_counterexample:
  "kapaClient stub_env (self twin_state) = Inr stub_kapa \<and>
   fst (kapa_ListTasks stub_kapa \<lparr>List_Fields = []\<rparr> (engine twin_state)) =
     Inr [stub_task ''t1'' ''alert cpu'' Enabled, stub_task ''t1'' ''batch'' Disabled] \<and>
   length [stub_task ''t1'' ''alert cpu'' Enabled, stub_task ''t1'' ''batch'' Disabled] = 2 \<and>
   card (dom (projr (fst (All_Client stub_env twin_state)))) = 1 \<and>
   projr (fst (All_Client stub_env twin_state)) ''t1'' \<noteq>
     Some (converted stub_env (stub_task ''t1'' ''alert cpu'' Enabled))"
proof -
  let ?a = "stub_task ''t1'' ''alert cpu'' Enabled"
  let ?b = "stub_task ''t1'' ''batch'' Disabled"
  have k: "kapaClient stub_env (self twin_state) = Inr stub_kapa"
    by (simp add: twin_state_def stub_state_sel kapaClient_stub)
  have l: "kapa_ListTasks stub_kapa \<lparr>List_Fields = []\<rparr> (engine twin_state) =
      (Inr [?a, ?b], ([?a, ?b], 0))"
    by (simp add: twin_state_def stub_state_sel stub_kapa_def)
  have m: "projr (fst (All_Client stub_env twin_state)) = All_loop stub_env [?a, ?b] Map.empty"
    by (simp add: All_unfold [OF k l])
  have d: "dom (All_loop stub_env [?a, ?b] Map.empty) = {''t1''}"
    unfolding dom_All_loop by (simp add: stub_task_sel)
  have e: "All_loop stub_env [?a, ?b] Map.empty ''t1'' = Some (converted stub_env ?b)"
    unfolding All_loop_map_of by (simp add: stub_task_sel)
  have n: "converted stub_env ?b \<noteq> converted stub_env ?a"
    by (simp add: converted_def stub_env_sel stub_task_sel degraded_rule_def cpu_rule_def)
  show ?thesis
    unfolding m d e using k l n by simp
qed

text \<open>
  C4, amended: for every list of tasks returned by the engine, \<open>All\<close> returns a map whose
  keys are exactly the identifiers of the listed tasks, and every entry is the
  conversion of a listed task with that identifier (of the last such task in the list).
  Each task is converted on its own: the reversed rule bound to the task's identifier
  and script, or the degraded rule when its script does not reverse. When the
  identifiers in the list are pairwise distinct the map has exactly N entries, and
  every task's entry is its own conversion, whatever happened to the other tasks.
\<close>

theorem All_one_entry_per_identifier:
  fixes env :: "('e, 'p::zero) env" and s :: "('e, 'g, 'p) state"
  assumes k: "kapaClient env (self s) = Inr k"
    and l: "kapa_ListTasks k \<lparr>List_Fields = []\<rparr> (engine s) = (Inr tasks, e1)"
  shows "\<exists>m. fst (All_Client env s) = Inr m \<and>
      dom m = KTask_ID ` set tasks \<and>
      m = map_of (rev (map (\<lambda>t. (KTask_ID t, converted env t)) tasks)) \<and>
      (\<forall>tid r. m tid = Some r \<longrightarrow>
         (\<exists>task \<in> set tasks. KTask_ID task = tid \<and> r = converted env task)) \<and>
      (distinct (map KTask_ID tasks) \<longrightarrow>
         card (dom m) = length tasks \<and>
         (\<forall>task \<in> set tasks. m (KTask_ID task) = Some (converted env task)))"
proof (intro exI conjI impI allI ballI)
  show "fst (All_Client env s) = Inr (All_loop env tasks Map.empty)"
    by (simp add: All_unfold [OF k l])
  show d: "dom (All_loop env tasks Map.empty) = KTask_ID ` set tasks"
    by (simp add: dom_All_loop)
  show "All_loop env tasks Map.empty =
      map_of (rev (map (\<lambda>t. (KTask_ID t, converted env t)) tasks))"
    by (simp add: All_loop_map_of)
  show "\<exists>task \<in> set tasks. KTask_ID task = tid \<and> r = converted env task"
    if "All_loop env tasks Map.empty tid = Some r" for tid r
    using All_loop_entry [OF that] by simp
  show "card (dom (All_loop env tasks Map.empty)) = length tasks"
    if "distinct (map KTask_ID tasks)"
    using that by (simp add: d card_dom_distinct)
  show "All_loop env tasks Map.empty (KTask_ID task) = Some (converted env task)"
    if "distinct (map KTask_ID tasks)" and "task \<in> set tasks" for task
    using that by (rule All_loop_distinct)
qed

theorem All_one_entry_per_identifier_witness:
  "card (dom (projr (fst (All_Client stub_env
      (stub_state [stub_task ''t1'' ''alert cpu'' Enabled, stub_task ''t2'' ''batch'' Enabled,
                   stub_task ''t3'' ''alert cpu'' Disabled] 1 []))))) = 3 \<and>
   projr (fst (All_Client stub_env
      (stub_state [stub_task ''t1'' ''alert cpu'' Enabled, stub_task ''t2'' ''batch'' Enabled,
                   stub_task ''t3'' ''alert cpu'' Disabled] 1 []))) ''t1'' =
     Some (cpu_rule\<lparr>Rule_ID := ''t1'', Rule_TICKScript := ''alert cpu''\<rparr>) \<and>
   projr (fst (All_Client stub_env
      (stub_state [stub_task ''t1'' ''alert cpu'' Enabled, stub_task ''t2'' ''batch'' Enabled,
                   stub_task ''t3'' ''alert cpu'' Disabled] 1 []))) ''t2'' =
     Some (degraded_rule ''t2'' ''batch'') \<and>
   projr (fst (All_Client stub_env
      (stub_state [stub_task ''t1'' ''alert cpu'' Enabled, stub_task ''t2'' ''batch'' Enabled,
                   stub_task ''t3'' ''alert cpu'' Disabled] 1 []))) ''t3'' =
     Some (cpu_rule\<lparr>Rule_ID := ''t3'', Rule_TICKScript := ''alert cpu''\<rparr>)"
proof -
  let ?a = "stub_task ''t1'' ''alert cpu'' Enabled"
  let ?b = "stub_task ''t2'' ''batch'' Enabled"
  let ?c = "stub_task ''t3'' ''alert cpu'' Disabled"
  let ?s = "stub_state [?a, ?b, ?c] 1 []"
  have k: "kapaClient stub_env (self ?s) = Inr stub_kapa"
    by (simp add: stub_state_sel kapaClient_stub)
  have l: "kapa_ListTasks stub_kapa \<lparr>List_Fields = []\<rparr> (engine ?s) =
      (Inr [?a, ?b, ?c], ([?a, ?b, ?c], 0))"
    by (simp add: stub_state_sel stub_kapa_def)
  have d: "distinct (map KTask_ID [?a, ?b, ?c])"
    by (simp add: stub_task_sel)
  from All_one_entry_per_identifier [OF k l] d obtain m where
    m: "fst (All_Client stub_env ?s) = Inr m"
    and c: "card (dom m) = length [?a, ?b, ?c]"
    and e: "\<forall>task \<in> set [?a, ?b, ?c]. m (KTask_ID task) = Some (converted stub_env task)"
    by blast
  have "m ''t1'' = Some (converted stub_env ?a)" "m ''t2'' = Some (converted stub_env ?b)"
    "m ''t3'' = Some (converted stub_env ?c)"
    using e by (simp_all add: stub_task_sel)
  then show ?thesis
    using c m by (simp add: converted_def stub_env_sel stub_task_sel)
qed



text \<open>
  C8. \<open>AllStatus\<close> sends one list request whose field projection names the status
  field only (the engine always reports the identifier). When the engine answers with a
  list of tasks, \<open>AllStatus\<close> returns a map whose key set is exactly the set of the
  identifiers in that list; each key is mapped to the status label, rendered as a
  string, of a listed task with that identifier, and when the identifiers are pairwise
  distinct every task's identifier is mapped to that task's own label. Nothing is
  translated, and an error of the engine is returned as it is.
\<close>

theorem AllStatus_keys_are_task_identifiers:
  assumes k: "kapaClient env (self s) = Inr k"
  shows
    "(kapa_ListTasks k \<lparr>List_Fields = [''status'']\<rparr> (engine s) = (r, e1) \<longrightarrow>
        calls (snd (AllStatus env s)) =
          calls s @ [CallListTasks \<lparr>List_Fields = [''status'']\<rparr>] \<and>
        (\<forall>err. r = Inl err \<longrightarrow> fst (AllStatus env s) = Inl err)) \<and>
     (kapa_ListTasks k \<lparr>List_Fields = [''status'']\<rparr> (engine s) = (Inr tasks, e2) \<longrightarrow>
        (\<exists>m. fst (AllStatus env s) = Inr m \<and>
           dom m = KTask_ID ` set tasks \<and>
           (\<forall>tid label. m tid = Some label \<longrightarrow>
              (\<exists>task \<in> set tasks. KTask_ID task = tid \<and>
                 label = Status_String env (KTask_Status task))) \<and>
           (distinct (map KTask_ID tasks) \<longrightarrow>
              (\<forall>task \<in> set tasks.
                 m (KTask_ID task) = Some (Status_String env (KTask_Status task))))))"
proof (intro conjI impI allI)
  assume l: "kapa_ListTasks k \<lparr>List_Fields = [''status'']\<rparr> (engine s) = (r, e1)"
  show "calls (snd (AllStatus env s)) =
      calls s @ [CallListTasks \<lparr>List_Fields = [''status'']\<rparr>]"
    by (simp add: AllStatus_unfold [OF k l])
  show "fst (AllStatus env s) = Inl err" if "r = Inl err" for err
    using that by (simp add: AllStatus_unfold [OF k l])
next
  assume l: "kapa_ListTasks k \<lparr>List_Fields = [''status'']\<rparr> (engine s) = (Inr tasks, e2)"
  have a: "fst (AllStatus env s) = Inr (AllStatus_loop env tasks Map.empty)"
    by (simp add: AllStatus_unfold [OF k l])
  have b: "dom (AllStatus_loop env tasks Map.empty) = KTask_ID ` set tasks"
    by (simp add: dom_AllStatus_loop)
  have c: "\<exists>task \<in> set tasks. KTask_ID task = tid \<and>
      label = Status_String env (KTask_Status task)"
    if "AllStatus_loop env tasks Map.empty tid = Some label" for tid label
    using AllStatus_loop_entry [OF that] by simp
  have d: "AllStatus_loop env tasks Map.empty (KTask_ID task) =
      Some (Status_String env (KTask_Status task))"
    if "distinct (map KTask_ID tasks)" and "task \<in> set tasks" for task
    using that by (rule AllStatus_loop_distinct)
  from a b c d show "\<exists>m. fst (AllStatus env s) = Inr m \<and>
           dom m = KTask_ID ` set tasks \<and>
           (\<forall>tid label. m tid = Some label \<longrightarrow>
              (\<exists>task \<in> set tasks. KTask_ID task = tid \<and>
                 label = Status_String env (KTask_Status task))) \<and>
           (distinct (map KTask_ID tasks) \<longrightarrow>
              (\<forall>task \<in> set tasks.
                 m (KTask_ID task) = Some (Status_String env (KTask_Status task))))"
    by blast
qed

theorem AllStatus_keys_are_task_identifiers_witness:
  "calls (snd (AllStatus stub_env
      (stub_state [stub_task ''t1'' ''alert cpu'' Enabled, stub_task ''t2'' ''batch'' Disabled]
         1 []))) = [CallListTasks \<lparr>List_Fields = [''status'']\<rparr>] \<and>
   (\<exists>m. fst (AllStatus stub_env
      (stub_state [stub_task ''t1'' ''alert cpu'' Enabled, stub_task ''t2'' ''batch'' Disabled]
         1 [])) = Inr m \<and>
      dom m = {''t1'', ''t2''} \<and> m ''t1'' = Some ''enabled'' \<and> m ''t2'' = Some ''disabled'') \<and>
   fst (AllStatus stub_env (stub_state [stub_task ''t1'' ''alert cpu'' Enabled] 0 [])) =
     Inl stub_down"
proof -
  let ?a = "stub_task ''t1'' ''alert cpu'' Enabled"
  let ?b = "stub_task ''t2'' ''batch'' Disabled"
  have k: "kapaClient stub_env (self (stub_state ts n [])) = Inr stub_kapa" for ts n
    by (simp add: stub_state_sel kapaClient_stub)
  have l: "kapa_ListTasks stub_kapa \<lparr>List_Fields = [''status'']\<rparr>
      (engine (stub_state [?a, ?b] 1 [])) = (Inr [?a, ?b], ([?a, ?b], 0))"
    by (simp add: stub_state_sel stub_kapa_def)
  have l0: "kapa_ListTasks stub_kapa \<lparr>List_Fields = [''status'']\<rparr>
      (engine (stub_state [?a] 0 [])) = (Inl stub_down, ([?a], 0))"
    by (simp add: stub_state_sel stub_kapa_def)
  have d: "distinct (map KTask_ID [?a, ?b])"
    by (simp add: stub_task_sel)
  note th = AllStatus_keys_are_task_identifiers
  have a: "calls (snd (AllStatus stub_env (stub_state [?a, ?b] 1 []))) =
      [CallListTasks \<lparr>List_Fields = [''status'']\<rparr>]"
    using th [OF k, THEN conjunct1, rule_format, OF l]
    by (simp add: stub_state_sel)
  from th [OF k, THEN conjunct2, rule_format, OF l] d obtain m where
    m: "fst (AllStatus stub_env (stub_state [?a, ?b] 1 [])) = Inr m"
    and dm: "dom m = KTask_ID ` set [?a, ?b]"
    and e: "\<forall>task \<in> set [?a, ?b].
      m (KTask_ID task) = Some (Status_String stub_env (KTask_Status task))"
    by blast
  have b: "\<exists>m. fst (AllStatus stub_env (stub_state [?a, ?b] 1 [])) = Inr m \<and>
      dom m = {''t1'', ''t2''} \<and> m ''t1'' = Some ''enabled'' \<and> m ''t2'' = Some ''disabled''"
    using m dm e by (simp add: stub_task_sel stub_env_sel)
  have c: "fst (AllStatus stub_env (stub_state [?a] 0 [])) = Inl stub_down"
    using th [OF k, THEN conjunct1, rule_format, OF l0] by simp
  from a b c show ?thesis
    by blast
qed

end
